theory Spec2Isabelle
  imports Complex_Main "HOL-Library.Sublist"
begin

section \<open>JavaScript values and strings\<close>

text \<open>
  A JavaScript string is modelled as a HOL \<open>string\<close>: a list of characters with codes
  0 to 255. A JavaScript value is one of the JSON values (what \<open>JSON.parse\<close> returns and
  what an object or array literal builds), \<open>undefined\<close>, or a built-in function or object
  that an object inherits from \<open>Object.prototype\<close>, named by its property. Numbers are
  data only (no arithmetic is done on a JSON number), so they are rationals. An object
  is the list of its own properties in insertion order, each name once.
\<close>

datatype js =
    JUndefined
  | JNull
  | JBool bool
  | JNum rat
  | JStr string
  | JArr "js list"
  | JObj "(string \<times> js) list"
  | JBuiltin string

text \<open>What an \<open>if\<close>, \<open>!\<close>, \<open>&&\<close> or \<open>||\<close> makes of a value.\<close>

fun truthy :: "js \<Rightarrow> bool" where
  "truthy JUndefined = False"
| "truthy JNull = False"
| "truthy (JBool b) = b"
| "truthy (JNum q) = (q \<noteq> 0)"
| "truthy (JStr s) = (s \<noteq> [])"
| "truthy (JArr xs) = True"
| "truthy (JObj kvs) = True"
| "truthy (JBuiltin n) = True"

fun nullish :: "js \<Rightarrow> bool" where
  "nullish JUndefined = True"
| "nullish JNull = True"
| "nullish v = False"

text \<open>
  The properties every object literal inherits from \<open>Object.prototype\<close>; each is a
  function, and \<open>__proto__\<close> is the prototype object itself.
\<close>

definition Object_prototype_props :: "string list" where
  "Object_prototype_props =
     [''constructor'', ''__defineGetter__'', ''__defineSetter__'', ''hasOwnProperty'',
      ''__lookupGetter__'', ''__lookupSetter__'', ''isPrototypeOf'',
      ''propertyIsEnumerable'', ''toString'', ''valueOf'', ''__proto__'',
      ''toLocaleString'']"

text \<open>
  Property read \<open>v.k\<close> or \<open>v[k]\<close> on a value that is neither \<open>null\<close> nor
  \<open>undefined\<close> (on those two the read throws; each call site checks). An object gives
  its own property, else the inherited one, else \<open>undefined\<close>. On strings, numbers,
  booleans and arrays the program only reads the names \<open>choices\<close>, \<open>message\<close>,
  \<open>content\<close>, \<open>error\<close>, \<open>selected_article\<close> and \<open>optimized_article\<close>, which none of them
  has.
\<close>

fun get_prop :: "js \<Rightarrow> string \<Rightarrow> js" where
  "get_prop (JObj kvs) k =
     (case map_of kvs k of
        Some v \<Rightarrow> v
      | None \<Rightarrow> if k \<in> set Object_prototype_props then JBuiltin k else JUndefined)"
| "get_prop v k = JUndefined"

text \<open>Optional chaining \<open>v?.k\<close>.\<close>

definition opt_prop :: "js \<Rightarrow> string \<Rightarrow> js" where
  "opt_prop v k = (if nullish v then JUndefined else get_prop v k)"

text \<open>Optional element read \<open>v?.[0]\<close>.\<close>

fun opt_first :: "js \<Rightarrow> js" where
  "opt_first (JArr xs) = (case xs of [] \<Rightarrow> JUndefined | x # _ \<Rightarrow> x)"
| "opt_first (JStr s) = (case s of [] \<Rightarrow> JUndefined | c # _ \<Rightarrow> JStr [c])"
| "opt_first (JObj kvs) = get_prop (JObj kvs) ''0''"
| "opt_first v = JUndefined"

subsection \<open>String methods\<close>

text \<open>\<open>s.indexOf(c)\<close> and \<open>s.lastIndexOf(c)\<close> for a one-character \<open>c\<close>: -1 when absent.\<close>

fun indexOf_from :: "char \<Rightarrow> string \<Rightarrow> int \<Rightarrow> int" where
  "indexOf_from c [] i = -1"
| "indexOf_from c (x # xs) i = (if x = c then i else indexOf_from c xs (i + 1))"

definition indexOf :: "string \<Rightarrow> char \<Rightarrow> int" where
  "indexOf s c = indexOf_from c s 0"

fun lastIndexOf_from :: "char \<Rightarrow> string \<Rightarrow> int \<Rightarrow> int" where
  "lastIndexOf_from c [] i = -1"
| "lastIndexOf_from c (x # xs) i =
     (let r = lastIndexOf_from c xs (i + 1) in
      if r \<noteq> -1 then r else if x = c then i else -1)"

definition lastIndexOf :: "string \<Rightarrow> char \<Rightarrow> int" where
  "lastIndexOf s c = lastIndexOf_from c s 0"

text \<open>\<open>s.includes(pat)\<close>.\<close>

fun str_includes :: "string \<Rightarrow> string \<Rightarrow> bool" where
  "str_includes [] pat = (pat = [])"
| "str_includes (c # cs) pat = (prefix pat (c # cs) \<or> str_includes cs pat)"

text \<open>
  White space of \<open>trim\<close> among the characters 0 to 255: tab, line feed, vertical tab,
  form feed, carriage return, space and no-break space.
\<close>

definition is_space :: "char \<Rightarrow> bool" where
  "is_space c = (c \<in> set [CHR 0x09, CHR 0x0A, CHR 0x0B, CHR 0x0C, CHR 0x0D, CHR 0x20, CHR 0xA0])"

definition trim :: "string \<Rightarrow> string" where
  "trim s = rev (dropWhile is_space (rev (dropWhile is_space s)))"

text \<open>
  \<open>s.toLowerCase()\<close> on the characters 0 to 255: the letters A to Z and the accented
  capitals 0xC0 to 0xDE (but the multiplication sign 0xD7) move up by 0x20.
\<close>

definition lower_char :: "char \<Rightarrow> char" where
  "lower_char c =
     (let n = of_char c :: nat in
      if (0x41 \<le> n \<and> n \<le> 0x5A) \<or> (0xC0 \<le> n \<and> n \<le> 0xDE \<and> n \<noteq> 0xD7)
      then char_of (n + 0x20) else c)"

definition toLowerCase :: "string \<Rightarrow> string" where
  "toLowerCase s = map lower_char s"

text \<open>
  \<open>s.replace(/pat\n?/g, '')\<close> for a literal, non-empty \<open>pat\<close>: every match, scanning
  from the left, is removed together with one line feed that follows it.
\<close>

function remove_all :: "string \<Rightarrow> string \<Rightarrow> string" where
  "remove_all pat [] = []"
| "remove_all pat (c # cs) =
     (if prefix pat (c # cs)
      then (case drop (length pat - 1) cs of
              [] \<Rightarrow> []
            | d # ds \<Rightarrow> if d = CHR 0x0A then remove_all pat ds else remove_all pat (d # ds))
      else c # remove_all pat cs)"
  by pat_completeness auto
termination
proof (relation "measure (\<lambda>(pat, s). length s)")
  show "wf (measure (\<lambda>(pat, s). length s))" by simp
next
  fix pat :: string and c cs d ds
  assume "drop (length pat - 1) cs = d # ds"
  then have "length (d # ds) \<le> length cs"
    by (metis length_drop diff_le_self)
  then show "((pat, ds), (pat, c # cs)) \<in> measure (\<lambda>(pat, s). length s)" by simp
next
  fix pat :: string and c cs d ds
  assume "drop (length pat - 1) cs = d # ds"
  then have "length (d # ds) \<le> length cs"
    by (metis length_drop diff_le_self)
  then show "((pat, d # ds), (pat, c # cs)) \<in> measure (\<lambda>(pat, s). length s)" by simp
next
  fix pat :: string and c cs
  show "((pat, cs), (pat, c # cs)) \<in> measure (\<lambda>(pat, s). length s)" by simp
qed

text \<open>
  \<open>s.split(sep)\<close> for a non-empty \<open>sep\<close>: the pieces between the occurrences of
  \<open>sep\<close>, found from the left; \<open>cur\<close> is the piece being read, reversed.
\<close>

function split_from :: "string \<Rightarrow> string \<Rightarrow> string \<Rightarrow> string list" where
  "split_from sep cur [] = [rev cur]"
| "split_from sep cur (c # cs) =
     (if prefix sep (c # cs)
      then rev cur # split_from sep [] (drop (length sep - 1) cs)
      else split_from sep (c # cur) cs)"
  by pat_completeness auto
termination
  by (relation "measure (\<lambda>(sep, cur, s). length s)") auto

definition split :: "string \<Rightarrow> string \<Rightarrow> string list" where
  "split s sep = split_from sep [] s"

section \<open>The generation client: cleaning a model answer\<close>

text \<open>
  \<open>cleanJSONResponse\<close>: remove the code fences, cut what stands before index
  \<open>jsonStart\<close> and after index \<open>jsonEnd\<close>, trim. \<open>jsonStart\<close> is the greater of the two
  first positions, as \<open>Math.max\<close> makes it.
\<close>

definition cleanJSONResponse :: "string \<Rightarrow> string" where
  "cleanJSONResponse content0 =
     (let content1 = remove_all ''```'' (remove_all ''```json'' content0);
          jsonStart = max (indexOf content1 CHR ''{'') (indexOf content1 CHR ''['');
          content2 = (if jsonStart > 0 then drop (nat jsonStart) content1 else content1);
          jsonEnd = max (lastIndexOf content2 CHR ''}'') (lastIndexOf content2 CHR '']'');
          content3 = (if jsonEnd \<noteq> -1 \<and> jsonEnd < int (length content2) - 1
                      then take (nat (jsonEnd + 1)) content2 else content2)
      in trim content3)"

section \<open>The generation client: fallback answers and schemas\<close>

text \<open>
  \<open>generateMockArticleContent\<close>: the topic is what follows the first \<open>about:\<close> of the
  prompt, up to the next \<open>about:\<close> or the end of the line, trimmed; without \<open>about:\<close> it
  is a fixed title. \<open>split\<close> gives at least two pieces when the separator occurs, so
  piece 1 exists, and piece 0 always does (lemma \<open>mock_topic_pieces\<close>).
\<close>

definition generateMockArticleContent :: "string \<Rightarrow> string" where
  "generateMockArticleContent prompt =
     (let topic = (if str_includes prompt ''about:''
                   then trim (hd (split (split prompt ''about:'' ! 1) [CHR 0x0A]))
                   else ''Modern Technology Trends'')
      in concat [
        ''# '',
        topic,
        ''\<newline>\<newline>## Introduction\<newline>\<newline>'',
        ''In today's rapidly evolving digital landscape, understanding '',
        toLowerCase topic,
        '' has become crucial for professionals across all industries. This comprehensive '',
        ''guide explores the key aspects, implications, and future prospects of this '',
        ''important subject.\<newline>\<newline>'',
        ''## Background and Context\<newline>\<newline>'',
        topic,
        '' has gained significant attention in recent years due to its transformative '',
        ''potential. Industry experts predict that this trend will continue to reshape '',
        ''how we work, communicate, and solve complex problems.\<newline>'',
        ''\<newline>## Key Developments\<newline>\<newline>'',
        ''### Current State\<newline>\<newline>The current state of '',
        toLowerCase topic,
        '' reflects a mature yet rapidly evolving field. Organizations worldwide are '',
        ''investing heavily in related technologies and methodologies to stay '',
        ''competitive.\<newline>\<newline>### Emerging Trends\<newline>'',
        ''\<newline>Several emerging trends are shaping the future of '',
        toLowerCase topic,
        '':\<newline>\<newline>'',
        ''- **Innovation Acceleration**: New developments are emerging at an '',
        ''unprecedented pace\<newline>'',
        ''- **Integration Focus**: Greater emphasis on seamless integration with existing '',
        ''systems\<newline>'',
        ''- **User-Centric Design**: Prioritizing user experience and accessibility\<newline>'',
        ''- **Sustainability Considerations**: Environmental and social impact '',
        ''awareness\<newline>\<newline>## Practical Applications\<newline>'',
        ''\<newline>Real-world applications of '',
        toLowerCase topic,
        '' demonstrate its versatility and potential:\<newline>\<newline>'',
        ''1. **Enterprise Solutions**: Large organizations leveraging these concepts for '',
        ''operational efficiency\<newline>'',
        ''2. **Small Business Adoption**: Smaller companies finding innovative ways to '',
        ''implement solutions\<newline>'',
        ''3. **Individual Use Cases**: Personal applications that enhance daily '',
        ''productivity\<newline>\<newline>'',
        ''## Challenges and Opportunities\<newline>\<newline>'',
        ''### Current Challenges\<newline>\<newline>'',
        ''- Technical complexity and implementation barriers\<newline>'',
        ''- Resource allocation and investment requirements\<newline>'',
        ''- Skills gap and training needs\<newline>'',
        ''- Integration with legacy systems\<newline>\<newline>'',
        ''### Future Opportunities\<newline>\<newline>'',
        ''- Market expansion and new business models\<newline>'',
        ''- Cross-industry collaboration potential\<newline>'',
        ''- Innovation in user interfaces and experiences\<newline>'',
        ''- Global accessibility and democratization\<newline>\<newline>'',
        ''## Best Practices\<newline>\<newline>'',
        ''Based on industry research and expert insights, consider these best '',
        ''practices:\<newline>\<newline>'',
        ''- Start with small-scale pilot projects\<newline>'',
        ''- Invest in team training and development\<newline>'',
        ''- Maintain focus on user needs and feedback\<newline>'',
        ''- Plan for scalability from the beginning\<newline>'',
        ''- Monitor performance and iterate regularly\<newline>\<newline>'',
        ''## Future Outlook\<newline>\<newline>The future of '',
        toLowerCase topic,
        '' looks promising, with continued investment and innovation expected. Key areas '',
        ''to watch include technological advancement, regulatory developments, and '',
        ''changing user expectations.\<newline>\<newline>## Conclusion\<newline>'',
        ''\<newline>'',
        topic,
        '' represents a significant opportunity for organizations and individuals willing '',
        ''to embrace change and innovation. By understanding the current landscape and '',
        ''preparing for future developments, stakeholders can position themselves for '',
        ''success in this evolving field.\<newline>\<newline>Success in '',
        toLowerCase topic,
        '' requires a balanced approach combining technical expertise, strategic '',
        ''thinking, and user-focused design. As the field continues to evolve, staying '',
        ''informed and adaptable will be key to maximizing benefits and minimizing risks.''])"

definition str_array :: "string list \<Rightarrow> js" where
  "str_array xs = JArr (map JStr xs)"

text \<open>The object literal \<open>responses\<close> of \<open>getMockResponse\<close>, one property per task type.\<close>

definition responses :: "string \<Rightarrow> (string \<times> js) list" where
  "responses prompt =
   [(''trending_analysis'', JObj [
      (''trending_topics'', JArr [
         JObj [
           (''headline'', JStr ''AI Revolution in Modern Technology''),
           (''significance_score'', JNum (85 / 10)),
           (''trend_velocity'', JStr ''rising_fast''),
           (''key_angles'', str_array [''automation'', ''machine learning'', ''future of work'']),
           (''target_keywords'',
              str_array [''artificial intelligence'', ''AI technology'', ''automation'']),
           (''estimated_interest'', JStr ''high'')],
         JObj [
           (''headline'', JStr ''Digital Transformation Trends''),
           (''significance_score'', JNum (78 / 10)),
           (''trend_velocity'', JStr ''steady_rise''),
           (''key_angles'',
              str_array [''digital innovation'', ''business transformation'',
                         ''technology adoption'']),
           (''target_keywords'',
              str_array [''digital transformation'', ''innovation'', ''technology'']),
           (''estimated_interest'', JStr ''high'')]])]),
    (''article_generation'', JObj [
      (''title'', JStr ''Understanding Modern Technology Trends''),
      (''subtitle'', JStr ''A comprehensive guide to navigating the digital landscape''),
      (''content'', JStr (generateMockArticleContent prompt)),
      (''tags'', str_array [''technology'', ''innovation'', ''digital'', ''trends'', ''future'']),
      (''estimated_read_time'', JStr ''6 min read''),
      (''word_count'', JNum 1200),
      (''seo_score'', JNum (85 / 10)),
      (''engagement_factors'',
         str_array [''compelling headline'', ''clear structure'', ''actionable insights''])]),
    (''article_selection'', JObj [
      (''selected_article'', JObj [
         (''article_index'', JNum 0),
         (''title'', JStr ''The Future of Technology: Trends to Watch''),
         (''subtitle'', JStr ''Exploring the innovations that will shape tomorrow''),
         (''content'', JStr (generateMockArticleContent prompt)),
         (''tags'', str_array [''technology'', ''future'', ''innovation'', ''trends'']),
         (''estimated_read_time'', JStr ''5 min read'')]),
      (''selection_reasoning'', JObj [
         (''quality_score'', JNum (87 / 10)),
         (''strengths'',
            str_array [''Strong SEO potential'', ''Engaging narrative'', ''Current relevance'']),
         (''optimization_suggestions'',
            str_array [''Add more statistics'', ''Include case studies'',
                       ''Enhance conclusion''])])]),
    (''article_optimization'', JObj [
      (''optimized_article'', JObj [
         (''title'',
            JStr ''The Future of Technology: Essential Trends Every Professional Should Know''),
         (''subtitle'',
            JStr ''A comprehensive analysis of emerging technologies reshaping industries''),
         (''content'', JStr (generateMockArticleContent prompt)),
         (''tags'',
            str_array [''technology'', ''innovation'', ''future'', ''trends'', ''business'']),
         (''meta_description'',
            JStr (''Discover the key technology trends shaping the future. Learn how AI, '' @
                  ''automation, and digital transformation are revolutionizing industries.'')),
         (''estimated_read_time'', JStr ''7 min read'')]),
      (''optimization_applied'',
         str_array [''SEO title optimization'', ''Keyword integration'',
                    ''Meta description enhancement'']),
      (''seo_improvements'',
         str_array [''Improved keyword density'', ''Enhanced readability'',
                    ''Better structure''])]),
    (''performance_prediction'', JObj [
      (''predicted_metrics'', JObj [
         (''estimated_views'', JStr ''5,000-10,000''),
         (''estimated_read_ratio'', JNum (65 / 100)),
         (''estimated_claps'', JStr ''150-300''),
         (''viral_potential'', JStr ''moderate'')]),
      (''success_factors'', str_array [''Trending topic'', ''Strong SEO'', ''Engaging title'']),
      (''improvement_recommendations'',
         str_array [''Add more visuals'', ''Include expert quotes'',
                    ''Enhance social sharing'']),
      (''confidence_level'', JStr ''high'')])]"

text \<open>\<open>getMockResponse\<close>: \<open>responses[taskType] || { error: ... }\<close>.\<close>

definition getMockResponse :: "string \<Rightarrow> string \<Rightarrow> js" where
  "getMockResponse taskType prompt =
     (let r = get_prop (JObj (responses prompt)) taskType in
      if truthy r then r
      else JObj [(''error'', JStr ''Mock data not available for this task type'')])"

subsection \<open>JSON schemas\<close>

text \<open>
  A schema node as \<open>getJSONSchema\<close> writes them: \<open>type\<close> is string, number, integer,
  array (with \<open>items\<close>) or object (with \<open>properties\<close>, \<open>required\<close> and
  \<open>additionalProperties\<close>).
\<close>

datatype jschema =
    TString
  | TNumber
  | TInteger
  | TArray jschema
  | TObject "(string \<times> jschema) list" "string list" bool

record schema_descriptor =
  name :: string
  strict :: bool
  schema :: jschema

definition string_array :: jschema where
  "string_array = TArray TString"

definition schemas :: "(string \<times> schema_descriptor) list" where
  "schemas =
   [(''trending_analysis'', \<lparr>name = ''trending_analysis'', strict = True, schema =
       TObject [
         (''trending_topics'', TArray (TObject [
            (''headline'', TString),
            (''significance_score'', TNumber),
            (''trend_velocity'', TString),
            (''key_angles'', string_array),
            (''target_keywords'', string_array),
            (''estimated_interest'', TString)]
            [''headline'', ''significance_score'', ''trend_velocity'', ''key_angles'',
             ''target_keywords'', ''estimated_interest'']
            False))]
         [''trending_topics''] False\<rparr>),
    (''article_generation'', \<lparr>name = ''article_generation'', strict = True, schema =
       TObject [
         (''title'', TString),
         (''subtitle'', TString),
         (''content'', TString),
         (''tags'', string_array),
         (''estimated_read_time'', TString),
         (''word_count'', TInteger),
         (''seo_score'', TNumber),
         (''engagement_factors'', string_array)]
         [''title'', ''subtitle'', ''content'', ''tags'', ''estimated_read_time'', ''word_count'']
         False\<rparr>),
    (''article_selection'', \<lparr>name = ''article_selection'', strict = True, schema =
       TObject [
         (''selected_article'', TObject [
            (''article_index'', TInteger),
            (''title'', TString),
            (''subtitle'', TString),
            (''content'', TString),
            (''tags'', string_array),
            (''estimated_read_time'', TString)]
            [''article_index'', ''title'', ''subtitle'', ''content'', ''tags'',
             ''estimated_read_time'']
            False),
         (''selection_reasoning'', TObject [
            (''quality_score'', TNumber),
            (''strengths'', string_array),
            (''optimization_suggestions'', string_array)]
            [''quality_score'', ''strengths'', ''optimization_suggestions'']
            False)]
         [''selected_article'', ''selection_reasoning''] False\<rparr>),
    (''article_optimization'', \<lparr>name = ''article_optimization'', strict = True, schema =
       TObject [
         (''optimized_article'', TObject [
            (''title'', TString),
            (''subtitle'', TString),
            (''content'', TString),
            (''tags'', string_array),
            (''meta_description'', TString),
            (''estimated_read_time'', TString)]
            [''title'', ''subtitle'', ''content'', ''tags'', ''meta_description'',
             ''estimated_read_time'']
            False),
         (''optimization_applied'', string_array),
         (''seo_improvements'', string_array)]
         [''optimized_article'', ''optimization_applied'', ''seo_improvements''] False\<rparr>),
    (''performance_prediction'', \<lparr>name = ''performance_prediction'', strict = True, schema =
       TObject [
         (''predicted_metrics'', TObject [
            (''estimated_views'', TString),
            (''estimated_read_ratio'', TNumber),
            (''estimated_claps'', TString),
            (''viral_potential'', TString)]
            [''estimated_views'', ''estimated_read_ratio'', ''estimated_claps'',
             ''viral_potential'']
            False),
         (''success_factors'', string_array),
         (''improvement_recommendations'', string_array),
         (''confidence_level'', TString)]
         [''predicted_metrics'', ''success_factors'', ''improvement_recommendations'',
          ''confidence_level'']
         False\<rparr>)]"

text \<open>
  \<open>getJSONSchema\<close>: \<open>schemas[taskType] || null\<close>. The read finds a descriptor, or a
  property inherited from \<open>Object.prototype\<close> (truthy, so it is returned), or nothing
  (\<open>None\<close> stands for \<open>null\<close>).
\<close>

datatype schema_lookup = Descriptor schema_descriptor | Inherited string

definition getJSONSchema :: "string \<Rightarrow> schema_lookup option" where
  "getJSONSchema taskType =
     (case map_of schemas taskType of
        Some d \<Rightarrow> Some (Descriptor d)
      | None \<Rightarrow> if taskType \<in> set Object_prototype_props then Some (Inherited taskType)
                else None)"

text \<open>
  Conformance of a value to a schema node, as JSON Schema reads the keywords used above:
  the value has the declared type, every required property is present, every declared
  property that is present conforms to its own node, and without
  \<open>additionalProperties\<close> no undeclared property is present.
\<close>

fun conforms :: "jschema \<Rightarrow> js \<Rightarrow> bool" where
  "conforms TString v = (case v of JStr s \<Rightarrow> True | _ \<Rightarrow> False)"
| "conforms TNumber v = (case v of JNum q \<Rightarrow> True | _ \<Rightarrow> False)"
| "conforms TInteger v = (case v of JNum q \<Rightarrow> of_int \<lfloor>q\<rfloor> = q | _ \<Rightarrow> False)"
| "conforms (TArray t) v = (case v of JArr xs \<Rightarrow> list_all (conforms t) xs | _ \<Rightarrow> False)"
| "conforms (TObject props req addl) v =
     (case v of
        JObj kvs \<Rightarrow>
          list_all (\<lambda>k. map_of kvs k \<noteq> None) req
          \<and> list_all (\<lambda>(k, t). case map_of kvs k of None \<Rightarrow> True | Some x \<Rightarrow> conforms t x) props
          \<and> (addl \<or> list_all (\<lambda>(k, x). map_of props k \<noteq> None) kvs)
      | _ \<Rightarrow> False)"

section \<open>The generation client: one call\<close>

datatype js_error = Error string | TypeError string | SyntaxError string

fun message :: "js_error \<Rightarrow> string" where
  "message (Error m) = m"
| "message (TypeError m) = m"
| "message (SyntaxError m) = m"

text \<open>The fields \<open>this.apiKey\<close>, \<open>this.apiUrl\<close> and \<open>this.model\<close>; an unset key is \<open>None\<close>.\<close>

record client_config =
  apiKey :: "string option"
  apiUrl :: string
  model :: string

record chat_message =
  role :: string
  content :: string

record response_format =
  format_type :: string
  json_schema :: schema_lookup

record bodyData =
  body_model :: string
  messages :: "chat_message list"
  max_tokens :: int
  temperature :: rat
  body_response_format :: "response_format option"

record fetch_request =
  url :: string
  http_method :: string
  headers :: "(string \<times> string) list"
  body :: bodyData

text \<open>
  What \<open>fetch\<close> resolves to: \<open>ok\<close>, \<open>status\<close>, and the outcome of \<open>response.json()\<close>,
  which rejects with an error when the body is not JSON.
\<close>

record response =
  ok :: bool
  status :: nat
  json :: "js_error + js"

text \<open>
  The built-ins of the runtime that the client calls and the repository does not define:
  \<open>JSON.parse\<close>, and the rendering of a number that is not a small integer.
\<close>

record runtime =
  JSON_parse :: "string \<Rightarrow> js_error + js"
  Number_toString :: "rat \<Rightarrow> string"

definition digit :: "nat \<Rightarrow> char" where
  "digit d = ''0123456789'' ! d"

function show_nat :: "nat \<Rightarrow> string" where
  "show_nat n = (if n < 10 then [digit n] else show_nat (n div 10) @ [digit (n mod 10)])"
  by pat_completeness auto
termination
  by (relation "measure (\<lambda>n. n)") auto

declare show_nat.simps [simp del]

text \<open>
  The text of a number: an integer of magnitude at most \<open>2\<^sup>5\<^sup>3\<close>, which a double holds
  exactly, is printed with all its digits; every other number is left to the runtime's
  own rendering \<open>fmt\<close>.
\<close>

definition number_toString :: "(rat \<Rightarrow> string) \<Rightarrow> rat \<Rightarrow> string" where
  "number_toString fmt q =
     (if of_int \<lfloor>q\<rfloor> = q \<and> \<bar>q\<bar> \<le> 2 ^ 53
      then (if q < 0 then ''-'' @ show_nat (nat (- \<lfloor>q\<rfloor>)) else show_nat (nat \<lfloor>q\<rfloor>))
      else fmt q)"

text \<open>The first error of a list of results, else the strings joined by \<open>sep\<close>.\<close>

fun join_results :: "string \<Rightarrow> (js_error + string) list \<Rightarrow> js_error + string" where
  "join_results sep [] = Inr []"
| "join_results sep (Inl e # rs) = Inl e"
| "join_results sep [Inr s] = Inr s"
| "join_results sep (Inr s # r # rs) =
     (case join_results sep (r # rs) of Inl e \<Rightarrow> Inl e | Inr t \<Rightarrow> Inr (s @ sep @ t))"

text \<open>
  The string a template literal \<open>${v}\<close> makes of a value. An array joins its elements
  with commas, \<open>null\<close> and \<open>undefined\<close> elements as empty strings. An object is
  \<open>[object Object]\<close>, unless it has an own \<open>toString\<close> property, which no parsed JSON
  value can call: then the conversion throws.
\<close>

fun js_toString :: "(rat \<Rightarrow> string) \<Rightarrow> js \<Rightarrow> js_error + string" where
  "js_toString fmt JUndefined = Inr ''undefined''"
| "js_toString fmt JNull = Inr ''null''"
| "js_toString fmt (JBool b) = Inr (if b then ''true'' else ''false'')"
| "js_toString fmt (JNum q) = Inr (number_toString fmt q)"
| "js_toString fmt (JStr s) = Inr s"
| "js_toString fmt (JArr xs) =
     join_results '',''
       (map (\<lambda>x. if x = JUndefined \<or> x = JNull then Inr [] else js_toString fmt x) xs)"
| "js_toString fmt (JObj kvs) =
     (if map_of kvs ''toString'' \<noteq> None
      then Inl (TypeError ''Cannot convert object to primitive value'')
      else Inr ''[object Object]'')"
| "js_toString fmt (JBuiltin n) =
     Inr (if n = ''__proto__'' then ''[object Object]''
          else ''function '' @ n @ ''() { [native code] }'')"

text \<open>The request \<open>callOpenAIAPI\<close> sends.\<close>

definition build_body ::
  "client_config \<Rightarrow> string \<Rightarrow> int \<Rightarrow> rat \<Rightarrow> bool \<Rightarrow> string \<Rightarrow> bodyData" where
  "build_body cfg prompt maxTokens temp returnJSON taskType =
     \<lparr>body_model = model cfg,
      messages =
        [\<lparr>role = ''system'',
          content = ''You are an expert content creator and digital marketing specialist. '' @
                    ''Provide accurate, engaging, and well-structured responses.''\<rparr>,
         \<lparr>role = ''user'',
          content =
            (if returnJSON
             then prompt @ ''\<newline>\<newline>IMPORTANT: Please respond only with valid JSON format. '' @
                  ''Do not include any markdown formatting, code blocks, or explanatory '' @
                  ''text - just pure JSON.''
             else prompt)\<rparr>],
      max_tokens = maxTokens,
      temperature = temp,
      body_response_format =
        (if returnJSON
         then (case getJSONSchema taskType of
                 None \<Rightarrow> None
               | Some s \<Rightarrow>
                   if str_includes (model cfg) ''gpt-4'' \<or> str_includes (model cfg) ''gpt-3.5''
                   then Some \<lparr>format_type = ''json_schema'', json_schema = s\<rparr>
                   else None)
         else None)\<rparr>"

definition build_request ::
  "client_config \<Rightarrow> string \<Rightarrow> string \<Rightarrow> int \<Rightarrow> rat \<Rightarrow> bool \<Rightarrow> string \<Rightarrow> fetch_request" where
  "build_request cfg key prompt maxTokens temp returnJSON taskType =
     \<lparr>url = apiUrl cfg,
      http_method = ''POST'',
      headers = [(''Content-Type'', ''application/json''), (''Authorization'', ''Bearer '' @ key)],
      body = build_body cfg prompt maxTokens temp returnJSON taskType\<rparr>"

text \<open>
  The error thrown for a response that is not \<open>ok\<close>. \<open>errorData\<close> is the parsed body,
  or \<open>{}\<close> when the body does not parse; reading \<open>.error\<close> of a \<open>null\<close> body throws a
  \<open>TypeError\<close> instead.
\<close>

definition errorData_of :: "response \<Rightarrow> js" where
  "errorData_of resp = (case json resp of Inl e \<Rightarrow> JObj [] | Inr d \<Rightarrow> d)"

definition upstream_message :: "js \<Rightarrow> js" where
  "upstream_message errorData =
     (let m = opt_prop (get_prop errorData ''error'') ''message'' in
      if truthy m then m else JStr ''Unknown error'')"

definition not_ok_error :: "runtime \<Rightarrow> response \<Rightarrow> js_error" where
  "not_ok_error rt resp =
     (let errorData = errorData_of resp in
      if errorData = JNull
      then TypeError ''Cannot read properties of null (reading 'error')''
      else if errorData = JUndefined
      then TypeError ''Cannot read properties of undefined (reading 'error')''
      else (case js_toString (Number_toString rt) (upstream_message errorData) of
              Inl e \<Rightarrow> e
            | Inr s \<Rightarrow> Error (''OpenAI API error: '' @ show_nat (status resp) @ '' - '' @ s)))"

text \<open>\<open>data.choices?.[0]?.message?.content\<close> for a \<open>data\<close> that is not \<open>null\<close>.\<close>

definition content_of :: "js \<Rightarrow> js" where
  "content_of data =
     opt_prop (opt_prop (opt_first (get_prop data ''choices'')) ''message'') ''content''"

text \<open>
  The body of the \<open>try\<close> block of \<open>callOpenAIAPI\<close>, from \<open>fetch\<close> on. An answer that
  does not parse after cleaning is replaced by the mock response of the task type.
\<close>

definition try_call ::
  "runtime \<Rightarrow> (js_error + response) \<Rightarrow> string \<Rightarrow> bool \<Rightarrow> string \<Rightarrow> js_error + js" where
  "try_call rt fetched prompt returnJSON taskType =
     (case fetched of
        Inl e \<Rightarrow> Inl e
      | Inr resp \<Rightarrow>
          if \<not> ok resp then Inl (not_ok_error rt resp)
          else (case json resp of
                  Inl e \<Rightarrow> Inl e
                | Inr data \<Rightarrow>
                    if data = JNull
                    then Inl (TypeError ''Cannot read properties of null (reading 'choices')'')
                    else if data = JUndefined
                    then Inl (TypeError
                           ''Cannot read properties of undefined (reading 'choices')'')
                    else if \<not> truthy (content_of data)
                    then Inl (Error ''Invalid response from OpenAI API'')
                    else (case content_of data of
                            JStr s \<Rightarrow>
                              (let content = trim s in
                               if returnJSON
                               then (case JSON_parse rt (cleanJSONResponse content) of
                                       Inr v \<Rightarrow> Inr v
                                     | Inl e \<Rightarrow> Inr (getMockResponse taskType prompt))
                               else Inr (JStr content))
                          | _ \<Rightarrow>
                              Inl (TypeError
                                ''data.choices[0].message.content.trim is not a function''))))"

text \<open>
  \<open>callOpenAIAPI\<close>: without a key it throws before any request. An error of the \<open>try\<close>
  block whose message contains \<open>JSON\<close> becomes the mock response when JSON was asked
  for; every other error is thrown again.
\<close>

definition callOpenAIAPI ::
  "client_config \<Rightarrow> runtime \<Rightarrow> (fetch_request \<Rightarrow> js_error + response) \<Rightarrow>
   string \<Rightarrow> int \<Rightarrow> rat \<Rightarrow> bool \<Rightarrow> string \<Rightarrow> js_error + js" where
  "callOpenAIAPI cfg rt fetch prompt maxTokens temp returnJSON taskType =
     (case apiKey cfg of
        None \<Rightarrow> Inl (Error ''OpenAI API key not configured'')
      | Some key \<Rightarrow>
          if key = [] then Inl (Error ''OpenAI API key not configured'')
          else (case try_call rt
                       (fetch (build_request cfg key prompt maxTokens temp returnJSON taskType))
                       prompt returnJSON taskType of
                  Inr v \<Rightarrow> Inr v
                | Inl e \<Rightarrow>
                    if returnJSON \<and> str_includes (message e) ''JSON''
                    then Inr (getMockResponse taskType prompt)
                    else Inl e))"

section \<open>The article service\<close>

text \<open>
  A JavaScript number as \<open>Math.min\<close> and \<open><\<close> see it, and the number the runtime makes
  of a value (\<open>ToNumber\<close>): \<open>null\<close> is 0, a boolean 0 or 1, a string what \<open>parse\<close> reads
  in it, an array or object what \<open>parse\<close> reads in its text; the conversion of an object
  to text may throw.
\<close>

datatype js_number = NaN | NegInfinity | PosInfinity | Num rat

fun ToNumber :: "(string \<Rightarrow> js_number) \<Rightarrow> (rat \<Rightarrow> string) \<Rightarrow> js \<Rightarrow> js_error + js_number" where
  "ToNumber parse fmt JUndefined = Inr NaN"
| "ToNumber parse fmt JNull = Inr (Num 0)"
| "ToNumber parse fmt (JBool b) = Inr (Num (if b then 1 else 0))"
| "ToNumber parse fmt (JNum q) = Inr (Num q)"
| "ToNumber parse fmt (JStr s) = Inr (parse s)"
| "ToNumber parse fmt (JArr xs) =
     (case js_toString fmt (JArr xs) of Inl e \<Rightarrow> Inl e | Inr s \<Rightarrow> Inr (parse s))"
| "ToNumber parse fmt (JObj kvs) =
     (case js_toString fmt (JObj kvs) of Inl e \<Rightarrow> Inl e | Inr s \<Rightarrow> Inr (parse s))"
| "ToNumber parse fmt (JBuiltin n) = Inr NaN"

text \<open>
  \<open>Math.min(x, n)\<close> for a count \<open>n\<close>: as \<open>n\<close> is finite, the result is \<open>NaN\<close>,
  \<open>-Infinity\<close> or a number that does not exceed \<open>n\<close>. \<open>below i m\<close> is the test \<open>i < m\<close>.
\<close>

datatype loop_limit = LimitNaN | LimitNegInfinity | Limit rat

fun Math_min_count :: "js_number \<Rightarrow> nat \<Rightarrow> loop_limit" where
  "Math_min_count NaN n = LimitNaN"
| "Math_min_count NegInfinity n = LimitNegInfinity"
| "Math_min_count PosInfinity n = Limit (of_nat n)"
| "Math_min_count (Num q) n = Limit (min q (of_nat n))"

fun below :: "nat \<Rightarrow> loop_limit \<Rightarrow> bool" where
  "below i LimitNaN = False"
| "below i LimitNegInfinity = False"
| "below i (Limit q) = (of_nat i < q)"

text \<open>The number of times \<open>for (let i = 0; i < m; i++)\<close> runs its body.\<close>

fun passes :: "loop_limit \<Rightarrow> nat" where
  "passes LimitNaN = 0"
| "passes LimitNegInfinity = 0"
| "passes (Limit q) = nat \<lceil>q\<rceil>"

text \<open>
  The request \<open>articleData\<close>: every field may be absent (\<open>None\<close>), and then the
  default of \<open>config.articleDefaults\<close> applies. The route \<open>generate-advanced\<close> validates
  \<open>article_count\<close> as an integer from 1 to 5; the route \<open>generate-batch\<close> has no rule for
  it and passes on whatever JSON value the request body holds, so the field is a value
  of any kind. Both routes turn the two flags into booleans.
\<close>

record articleData =
  d_topic :: "string option"
  d_article_count :: "js option"
  d_content_length :: "string option"
  d_tone :: "string option"
  d_search_depth :: "int option"
  d_recency_hours :: "int option"
  d_quality_threshold :: "rat option"
  d_seo_keywords :: "string option"
  d_auto_optimize :: "bool option"
  d_include_analytics :: "bool option"
  d_custom_prompt_addition :: "string option"
  d_exclude_sources :: "string option"

definition articleDefaults_contentLength :: string where
  "articleDefaults_contentLength = ''medium''"
definition articleDefaults_tone :: string where
  "articleDefaults_tone = ''professional''"
definition articleDefaults_searchDepth :: int where
  "articleDefaults_searchDepth = 10"
definition articleDefaults_recencyHours :: int where
  "articleDefaults_recencyHours = 24"
definition articleDefaults_qualityThreshold :: rat where
  "articleDefaults_qualityThreshold = 7"
definition articleDefaults_autoOptimize :: bool where
  "articleDefaults_autoOptimize = True"
definition articleDefaults_includeAnalytics :: bool where
  "articleDefaults_includeAnalytics = True"
definition articleDefaults_articleCount :: int where
  "articleDefaults_articleCount = 3"

definition validTones :: "string list" where
  "validTones = [''professional'', ''casual'', ''analytical'', ''conversational'',
                 ''authoritative'', ''engaging'']"

definition lengthSpecs_keys :: "string list" where
  "lengthSpecs_keys = [''short'', ''medium'', ''long'']"

text \<open>
  The stored article. The source names the first field \<open>id\<close> and the last \<open>status\<close>.
\<close>

record article =
  art_id :: string
  topic :: "string option"
  content_length :: string
  tone :: string
  search_depth :: int
  recency_hours :: int
  quality_threshold :: rat
  seo_keywords :: string
  auto_optimize :: bool
  include_analytics :: bool
  trending_topics_analyzed :: nat
  candidates_generated :: nat
  processing_time_ms :: int
  result :: js
  performance_prediction :: js
  createdAt :: string
  article_status :: string

text \<open>
  Everything outside the service: the five methods of the generation client, each of
  which answers or throws, the identifier generator, the clock and the timer. They act
  on a state \<open>'s\<close> of their own, which every call may read and change, so that two
  calls with the same arguments may answer differently. Stage 1 answers with an array.
  The last two fields are the runtime's reading of a string as a number and its
  rendering of a number, both without effect on the state.
\<close>

record 's env =
  getTrendingTopics ::
    "string option \<Rightarrow> int \<Rightarrow> int \<Rightarrow> string \<Rightarrow> 's \<Rightarrow> (js_error + js list) \<times> 's"
  generateArticleCandidate ::
    "js \<Rightarrow> string \<Rightarrow> string \<Rightarrow> string \<Rightarrow> string \<Rightarrow> 's \<Rightarrow> (js_error + js) \<times> 's"
  selectBestArticle ::
    "js list \<Rightarrow> string option \<Rightarrow> rat \<Rightarrow> 's \<Rightarrow> (js_error + js) \<times> 's"
  optimizeArticle ::
    "js \<Rightarrow> string \<Rightarrow> string option \<Rightarrow> 's \<Rightarrow> (js_error + js) \<times> 's"
  predictPerformance ::
    "js \<Rightarrow> string option \<Rightarrow> 's \<Rightarrow> (js_error + js) \<times> 's"
  uuidv4 :: "'s \<Rightarrow> string \<times> 's"
  Date_now :: "'s \<Rightarrow> int \<times> 's"
  Date_toISOString :: "'s \<Rightarrow> string \<times> 's"
  setTimeout :: "nat \<Rightarrow> 's \<Rightarrow> 's"
  StringToNumber :: "string \<Rightarrow> js_number"
  NumberToString :: "rat \<Rightarrow> string"

text \<open>The store \<open>articles\<close>, a \<open>Map\<close> in insertion order, and \<open>articles.set\<close>.\<close>

type_synonym store = "(string \<times> article) list"

fun Map_set :: "store \<Rightarrow> string \<Rightarrow> article \<Rightarrow> store" where
  "Map_set [] k v = [(k, v)]"
| "Map_set ((k', v') # kvs) k v =
     (if k' = k then (k, v) # kvs else (k', v') # Map_set kvs k v)"

subsection \<open>The pipeline\<close>

text \<open>
  Stage 2, the loop \<open>for (let i = 0; i < maxCandidates; i++)\<close>: \<open>gen\<close> is
  \<open>generateArticleCandidate\<close> with its four fixed arguments. A candidate that throws is
  logged and skipped. \<open>maxCandidates\<close> never exceeds the number of topics, so
  \<open>trendingTopics[i]\<close> exists.
\<close>

function candidates_loop ::
  "(js \<Rightarrow> 's \<Rightarrow> (js_error + js) \<times> 's) \<Rightarrow> js list \<Rightarrow> loop_limit \<Rightarrow> nat \<Rightarrow> js list \<Rightarrow> 's
   \<Rightarrow> js list \<times> 's" where
  "candidates_loop gen trendingTopics maxCandidates i articleCandidates s =
     (if below i maxCandidates
      then (case gen (trendingTopics ! i) s of
              (Inr candidate, s') \<Rightarrow>
                candidates_loop gen trendingTopics maxCandidates (Suc i)
                  (articleCandidates @ [candidate]) s'
            | (Inl error, s') \<Rightarrow>
                candidates_loop gen trendingTopics maxCandidates (Suc i) articleCandidates s')
      else (articleCandidates, s))"
  by pat_completeness auto
termination
proof (relation "measure (\<lambda>(gen, ts, m, i, acc, s). passes m - i)")
  show "wf (measure (\<lambda>(gen, ts, m, i, acc, s). passes m - i))" by simp
next
  fix gen :: "js \<Rightarrow> 's \<Rightarrow> (js_error + js) \<times> 's"
    and ts :: "js list" and m i and acc :: "js list" and s :: 's and x y b s'
  assume lt: "below i m"
  have "i < passes m"
  proof (cases m)
    case (Limit q)
    with lt have "of_int (int i) < q" by simp
    then have "int i < \<lceil>q\<rceil>" by (simp only: less_ceiling_iff)
    with Limit show ?thesis by simp
  qed (use lt in simp_all)
  then show "((gen, ts, m, Suc i, acc @ [b], s'), (gen, ts, m, i, acc, s))
               \<in> measure (\<lambda>(gen, ts, m, i, acc, s). passes m - i)"
    by simp
next
  fix gen :: "js \<Rightarrow> 's \<Rightarrow> (js_error + js) \<times> 's"
    and ts :: "js list" and m i and acc :: "js list" and s :: 's and x y a s'
  assume lt: "below i m"
  have "i < passes m"
  proof (cases m)
    case (Limit q)
    with lt have "of_int (int i) < q" by simp
    then have "int i < \<lceil>q\<rceil>" by (simp only: less_ceiling_iff)
    with Limit show ?thesis by simp
  qed (use lt in simp_all)
  then show "((gen, ts, m, Suc i, acc, s'), (gen, ts, m, i, acc, s))
               \<in> measure (\<lambda>(gen, ts, m, i, acc, s). passes m - i)"
    by simp
qed

declare candidates_loop.simps [simp del]

text \<open>Stage 4: the selection stands when optimization is off, throws, or answers without
  a truthy \<open>optimized_article\<close>.\<close>

definition optimize_stage ::
  "'s env \<Rightarrow> bool \<Rightarrow> js \<Rightarrow> string \<Rightarrow> string option \<Rightarrow> 's \<Rightarrow> js \<times> 's" where
  "optimize_stage env auto_opt bestArticle seo tp s =
     (if auto_opt
      then (case optimizeArticle env bestArticle seo tp s of
              (Inr optimizedArticle, s') \<Rightarrow>
                (if truthy optimizedArticle
                    \<and> truthy (get_prop optimizedArticle ''optimized_article'')
                 then optimizedArticle else bestArticle, s')
            | (Inl error, s') \<Rightarrow> (bestArticle, s'))
      else (bestArticle, s))"

text \<open>Stage 5: the prediction stays \<open>null\<close> when analytics is off or the call throws.\<close>

definition predict_stage ::
  "'s env \<Rightarrow> bool \<Rightarrow> js \<Rightarrow> string option \<Rightarrow> 's \<Rightarrow> js \<times> 's" where
  "predict_stage env analytics finalArticle tp s =
     (if analytics
      then (case predictPerformance env finalArticle tp s of
              (Inr prediction, s') \<Rightarrow> (prediction, s')
            | (Inl error, s') \<Rightarrow> (JNull, s'))
      else (JNull, s))"

text \<open>The destructuring of \<open>articleData\<close> with its defaults.\<close>

definition p_article_count :: "articleData \<Rightarrow> js" where
  "p_article_count d =
     (case d_article_count d of None \<Rightarrow> JNum (of_int articleDefaults_articleCount) | Some v \<Rightarrow> v)"
definition p_content_length :: "articleData \<Rightarrow> string" where
  "p_content_length d = (case d_content_length d of None \<Rightarrow> articleDefaults_contentLength | Some v \<Rightarrow> v)"
definition p_tone :: "articleData \<Rightarrow> string" where
  "p_tone d = (case d_tone d of None \<Rightarrow> articleDefaults_tone | Some v \<Rightarrow> v)"
definition p_search_depth :: "articleData \<Rightarrow> int" where
  "p_search_depth d = (case d_search_depth d of None \<Rightarrow> articleDefaults_searchDepth | Some v \<Rightarrow> v)"
definition p_recency_hours :: "articleData \<Rightarrow> int" where
  "p_recency_hours d = (case d_recency_hours d of None \<Rightarrow> articleDefaults_recencyHours | Some v \<Rightarrow> v)"
definition p_quality_threshold :: "articleData \<Rightarrow> rat" where
  "p_quality_threshold d =
     (case d_quality_threshold d of None \<Rightarrow> articleDefaults_qualityThreshold | Some v \<Rightarrow> v)"
definition p_seo_keywords :: "articleData \<Rightarrow> string" where
  "p_seo_keywords d = (case d_seo_keywords d of None \<Rightarrow> [] | Some v \<Rightarrow> v)"
definition p_auto_optimize :: "articleData \<Rightarrow> bool" where
  "p_auto_optimize d = (case d_auto_optimize d of None \<Rightarrow> articleDefaults_autoOptimize | Some v \<Rightarrow> v)"
definition p_include_analytics :: "articleData \<Rightarrow> bool" where
  "p_include_analytics d =
     (case d_include_analytics d of None \<Rightarrow> articleDefaults_includeAnalytics | Some v \<Rightarrow> v)"
definition p_custom_prompt_addition :: "articleData \<Rightarrow> string" where
  "p_custom_prompt_addition d = (case d_custom_prompt_addition d of None \<Rightarrow> [] | Some v \<Rightarrow> v)"
definition p_exclude_sources :: "articleData \<Rightarrow> string" where
  "p_exclude_sources d = (case d_exclude_sources d of None \<Rightarrow> [] | Some v \<Rightarrow> v)"

text \<open>\<open>generateArticleCandidate\<close> with the four arguments that stay the same in the loop.\<close>

definition candidate_call :: "'s env \<Rightarrow> articleData \<Rightarrow> js \<Rightarrow> 's \<Rightarrow> (js_error + js) \<times> 's" where
  "candidate_call env d t =
     generateArticleCandidate env t (p_content_length d) (p_tone d) (p_seo_keywords d)
       (p_custom_prompt_addition d)"

text \<open>
  \<open>generateAdvancedArticle\<close>. The outer \<open>catch\<close> logs the error and throws it again, and
  \<open>logDebug\<close> only prints, so neither appears. A run that throws leaves the store as
  it was. \<open>Math.min\<close> makes a number of \<open>article_count\<close> first, which throws for an
  object that cannot be turned into text.
\<close>

definition generateAdvancedArticle ::
  "'s env \<Rightarrow> articleData \<Rightarrow> store \<times> 's \<Rightarrow> (js_error + article) \<times> (store \<times> 's)" where
  "generateAdvancedArticle env d st =
     (let articles = fst st;
          (startTime, s0) = Date_now env (snd st);
          tp = d_topic d;
          article_count = p_article_count d;
          len = p_content_length d;
          tn = p_tone d;
          depth = p_search_depth d;
          hours = p_recency_hours d;
          threshold = p_quality_threshold d;
          seo = p_seo_keywords d;
          auto_opt = p_auto_optimize d;
          analytics = p_include_analytics d;
          exclude = p_exclude_sources d
      in
      case getTrendingTopics env tp depth hours exclude s0 of
        (Inl error, s1) \<Rightarrow> (Inl error, (articles, s1))
      | (Inr trendingTopics, s1) \<Rightarrow>
          if trendingTopics = []
          then (Inl (Error ''No trending topics found for the specified criteria''), (articles, s1))
          else
            case ToNumber (StringToNumber env) (NumberToString env) article_count of
              Inl error \<Rightarrow> (Inl error, (articles, s1))
            | Inr count \<Rightarrow>
            let maxCandidates = Math_min_count count (length trendingTopics);
                (articleCandidates, s2) =
                  candidates_loop (candidate_call env d) trendingTopics maxCandidates 0 [] s1
            in
            if articleCandidates = []
            then (Inl (Error ''All article generation attempts failed''), (articles, s2))
            else
              case selectBestArticle env articleCandidates tp threshold s2 of
                (Inl error, s3) \<Rightarrow> (Inl error, (articles, s3))
              | (Inr bestArticle, s3) \<Rightarrow>
                  if \<not> truthy bestArticle \<or> \<not> truthy (get_prop bestArticle ''selected_article'')
                  then (Inl (Error ''Article selection process failed''), (articles, s3))
                  else
                    let (finalArticle, s4) = optimize_stage env auto_opt bestArticle seo tp s3;
                        (performancePrediction, s5) =
                          predict_stage env analytics finalArticle tp s4;
                        (new_id, s6) = uuidv4 env s5;
                        (now, s7) = Date_now env s6;
                        (created, s8) = Date_toISOString env s7;
                        article =
                          \<lparr>art_id = new_id,
                           topic = tp,
                           content_length = len,
                           tone = tn,
                           search_depth = depth,
                           recency_hours = hours,
                           quality_threshold = threshold,
                           seo_keywords = seo,
                           auto_optimize = auto_opt,
                           include_analytics = analytics,
                           trending_topics_analyzed = length trendingTopics,
                           candidates_generated = length articleCandidates,
                           processing_time_ms = now - startTime,
                           result = finalArticle,
                           performance_prediction = performancePrediction,
                           createdAt = created,
                           article_status = ''generated''\<rparr>
                    in (Inr article, (Map_set articles new_id article, s8)))"

subsection \<open>The batch\<close>

text \<open>
  One entry of \<open>batch_results\<close>. The source names the fields \<open>topic\<close>, \<open>index\<close>,
  \<open>status\<close>, \<open>article_id\<close>, \<open>processing_time_ms\<close> and \<open>error\<close>; a success entry has no
  \<open>error\<close> and an error entry neither \<open>article_id\<close> nor \<open>processing_time_ms\<close>.
\<close>

record batch_entry =
  entry_topic :: string
  entry_index :: nat
  entry_status :: string
  entry_article_id :: "string option"
  entry_processing_time_ms :: "int option"
  entry_error :: "string option"

record batch_output =
  batch_results :: "batch_entry list"
  total_topics :: nat
  successful_generations :: nat
  batch_processing_time_ms :: int

text \<open>
  \<open>{ topic, ...sharedParams }\<close>: the properties of \<open>sharedParams\<close> are copied over the
  topic of the loop, so a \<open>topic\<close> among them wins.
\<close>

definition requestData :: "string \<Rightarrow> articleData \<Rightarrow> articleData" where
  "requestData tp sharedParams =
     sharedParams\<lparr>d_topic := (case d_topic sharedParams of None \<Rightarrow> Some tp | Some t \<Rightarrow> Some t)\<rparr>"

text \<open>
  The body of the loop \<open>for (const [index, topic] of topics.entries())\<close>, a
  \<open>try\<close> with its \<open>catch\<close>: the entry it pushes and the state it leaves. \<open>n\<close> is
  \<open>topics.length\<close>. After a success that is not the last topic it waits two seconds.
\<close>

definition batch_step ::
  "'s env \<Rightarrow> articleData \<Rightarrow> nat \<Rightarrow> nat \<Rightarrow> string \<Rightarrow> store \<times> 's \<Rightarrow> batch_entry \<times> (store \<times> 's)" where
  "batch_step env sharedParams n index tp st =
     (case generateAdvancedArticle env (requestData tp sharedParams) st of
        (Inr res, st') \<Rightarrow>
          (\<lparr>entry_topic = tp, entry_index = index, entry_status = ''success'',
            entry_article_id = Some (art_id res),
            entry_processing_time_ms = Some (processing_time_ms res),
            entry_error = None\<rparr>,
           (fst st', if int index < int n - 1 then setTimeout env 2000 (snd st') else snd st'))
      | (Inl error, st') \<Rightarrow>
          (\<lparr>entry_topic = tp, entry_index = index, entry_status = ''error'',
            entry_article_id = None,
            entry_processing_time_ms = None,
            entry_error = Some (message error)\<rparr>,
           st'))"

text \<open>The loop itself: \<open>rest\<close> are the topics from \<open>index\<close> on.\<close>

fun batch_loop ::
  "'s env \<Rightarrow> articleData \<Rightarrow> nat \<Rightarrow> nat \<Rightarrow> string list \<Rightarrow> batch_entry list \<Rightarrow> store \<times> 's
   \<Rightarrow> batch_entry list \<times> (store \<times> 's)" where
  "batch_loop env sharedParams n index [] results st = (results, st)"
| "batch_loop env sharedParams n index (tp # rest) results st =
     (let (entry, st') = batch_step env sharedParams n index tp st in
      batch_loop env sharedParams n (Suc index) rest (results @ [entry]) st')"

definition generateBatchArticles ::
  "'s env \<Rightarrow> string list \<Rightarrow> articleData \<Rightarrow> store \<times> 's \<Rightarrow> batch_output \<times> (store \<times> 's)" where
  "generateBatchArticles env topics sharedParams st =
     (let (startTime, s0) = Date_now env (snd st);
          (results, st1) = batch_loop env sharedParams (length topics) 0 topics [] (fst st, s0);
          (now, s2) = Date_now env (snd st1)
      in (\<lparr>batch_results = results,
           total_topics = length topics,
           successful_generations = length (filter (\<lambda>r. entry_status r = ''success'') results),
           batch_processing_time_ms = now - startTime\<rparr>,
          (fst st1, s2)))"

subsection \<open>Statistics\<close>

text \<open>
  \<open>Math.round\<close>: the nearest integer, a half going up. The times are integers and the
  quotient is taken exactly; the program divides in double precision, which gives the
  same rounded value as long as the sum of the times stays far below \<open>2\<^sup>5\<^sup>2\<close>.
\<close>

definition Math_round :: "rat \<Rightarrow> int" where
  "Math_round q = \<lfloor>q + 1 / 2\<rfloor>"

definition count_where :: "(article \<Rightarrow> bool) \<Rightarrow> article list \<Rightarrow> js" where
  "count_where p allArticles = JNum (of_nat (length (filter p allArticles)))"

text \<open>\<open>getArticleStats\<close>: the object it returns, property by property.\<close>

definition getArticleStats :: "store \<Rightarrow> js" where
  "getArticleStats articles =
     (let allArticles = map snd articles in
      JObj [
        (''total_articles'', JNum (of_nat (length allArticles))),
        (''by_status'', JObj [
           (''generated'', count_where (\<lambda>a. article_status a = ''generated'') allArticles),
           (''optimized'', count_where auto_optimize allArticles)]),
        (''by_tone'',
           JObj (map (\<lambda>t. (t, count_where (\<lambda>a. tone a = t) allArticles)) validTones)),
        (''by_length'',
           JObj (map (\<lambda>l. (l, count_where (\<lambda>a. content_length a = l) allArticles))
                   lengthSpecs_keys)),
        (''average_processing_time'',
           JNum (if length allArticles > 0
                 then of_int (Math_round
                        (of_int (foldl (\<lambda>sum a. sum + processing_time_ms a) 0 allArticles)
                         / of_nat (length allArticles)))
                 else 0))])"

section \<open>Notions the properties are stated with\<close>

text \<open>The five task types the client is called with.\<close>

definition known_task_types :: "string list" where
  "known_task_types = [''trending_analysis'', ''article_generation'', ''article_selection'',
                       ''article_optimization'', ''performance_prediction'']"

text \<open>
  A call asking for JSON whose answer arrives (key set, response \<open>ok\<close>, a non-empty
  string as content) and does not parse after cleaning.
\<close>

definition answer_unparsable ::
  "client_config \<Rightarrow> runtime \<Rightarrow> (fetch_request \<Rightarrow> js_error + response) \<Rightarrow>
   string \<Rightarrow> int \<Rightarrow> rat \<Rightarrow> string \<Rightarrow> bool" where
  "answer_unparsable cfg rt fetch prompt maxTokens temp taskType =
     (case apiKey cfg of
        None \<Rightarrow> False
      | Some key \<Rightarrow>
          key \<noteq> [] \<and>
          (case fetch (build_request cfg key prompt maxTokens temp True taskType) of
             Inl e \<Rightarrow> False
           | Inr resp \<Rightarrow>
               ok resp \<and>
               (case json resp of
                  Inl e \<Rightarrow> False
                | Inr data \<Rightarrow>
                    (case content_of data of
                       JStr s \<Rightarrow> s \<noteq> [] \<and> isl (JSON_parse rt (cleanJSONResponse (trim s)))
                     | _ \<Rightarrow> False))))"

text \<open>The own properties of an object.\<close>

fun own_props :: "js \<Rightarrow> (string \<times> js) list" where
  "own_props (JObj kvs) = kvs"
| "own_props v = []"

text \<open>
  The outcomes of the stage-2 calls in the order the loop makes them, whether they
  answered or threw, and the candidates among them.
\<close>

function attempts ::
  "(js \<Rightarrow> 's \<Rightarrow> (js_error + js) \<times> 's) \<Rightarrow> js list \<Rightarrow> loop_limit \<Rightarrow> nat \<Rightarrow> 's
   \<Rightarrow> (js_error + js) list \<times> 's" where
  "attempts gen trendingTopics maxCandidates i s =
     (if below i maxCandidates
      then (let (r, s') = gen (trendingTopics ! i) s;
                (rs, s'') = attempts gen trendingTopics maxCandidates (Suc i) s'
            in (r # rs, s''))
      else ([], s))"
  by pat_completeness auto
termination
proof (relation "measure (\<lambda>(gen, ts, m, i, s). passes m - i)")
  show "wf (measure (\<lambda>(gen, ts, m, i, s). passes m - i))" by simp
next
  fix gen :: "js \<Rightarrow> 's \<Rightarrow> (js_error + js) \<times> 's"
    and ts :: "js list" and m i and s :: 's and x r s'
  assume lt: "below i m"
  have "i < passes m"
  proof (cases m)
    case (Limit q)
    with lt have "of_int (int i) < q" by simp
    then have "int i < \<lceil>q\<rceil>" by (simp only: less_ceiling_iff)
    with Limit show ?thesis by simp
  qed (use lt in simp_all)
  then show "((gen, ts, m, Suc i, s'), (gen, ts, m, i, s))
               \<in> measure (\<lambda>(gen, ts, m, i, s). passes m - i)"
    by simp
qed

declare attempts.simps [simp del]

fun successes :: "(js_error + js) list \<Rightarrow> js list" where
  "successes [] = []"
| "successes (Inl e # rs) = successes rs"
| "successes (Inr c # rs) = c # successes rs"

text \<open>
  The calls of stages 1 to 3 as a run makes them. Stage 2 makes no call when
  \<open>Math.min\<close> throws on \<open>article_count\<close>.
\<close>

definition stage1 :: "'s env \<Rightarrow> articleData \<Rightarrow> store \<times> 's \<Rightarrow> (js_error + js list) \<times> 's" where
  "stage1 env d st =
     getTrendingTopics env (d_topic d) (p_search_depth d) (p_recency_hours d)
       (p_exclude_sources d) (snd (Date_now env (snd st)))"

fun answered :: "js_error + js list \<Rightarrow> js list" where
  "answered (Inr ts) = ts"
| "answered (Inl e) = []"

definition count_number :: "'s env \<Rightarrow> articleData \<Rightarrow> js_error + js_number" where
  "count_number env d = ToNumber (StringToNumber env) (NumberToString env) (p_article_count d)"

definition stage2 ::
  "'s env \<Rightarrow> articleData \<Rightarrow> js list \<Rightarrow> 's \<Rightarrow> (js_error + js) list \<times> 's" where
  "stage2 env d trendingTopics s1 =
     (case count_number env d of
        Inl e \<Rightarrow> ([], s1)
      | Inr count \<Rightarrow>
          attempts (candidate_call env d) trendingTopics
            (Math_min_count count (length trendingTopics)) 0 s1)"

definition stage3 ::
  "'s env \<Rightarrow> articleData \<Rightarrow> (js_error + js) list \<Rightarrow> 's \<Rightarrow> (js_error + js) \<times> 's" where
  "stage3 env d outs s2 =
     selectBestArticle env (successes outs) (d_topic d) (p_quality_threshold d) s2"

text \<open>What the run asks of the stage-3 answer: truthy, with a truthy \<open>selected_article\<close>.\<close>

definition has_selection :: "js \<Rightarrow> bool" where
  "has_selection b = (truthy b \<and> truthy (get_prop b ''selected_article''))"

text \<open>The state in which the batch starts on topic \<open>i\<close>, from the state \<open>st0\<close> of topic 0.\<close>

fun batch_state ::
  "'s env \<Rightarrow> articleData \<Rightarrow> string list \<Rightarrow> nat \<Rightarrow> store \<times> 's \<Rightarrow> store \<times> 's" where
  "batch_state env sharedParams topics 0 st0 = st0"
| "batch_state env sharedParams topics (Suc i) st0 =
     snd (batch_step env sharedParams (length topics) i (topics ! i)
            (batch_state env sharedParams topics i st0))"

text \<open>The mean of a list of integers.\<close>

definition mean :: "int list \<Rightarrow> rat" where
  "mean xs = of_int (sum_list xs) / of_nat (length xs)"

text \<open>The record a run assembles and stores, with the state after its last call.\<close>

definition assemble ::
  "'s env \<Rightarrow> articleData \<Rightarrow> store \<times> 's \<Rightarrow> nat \<Rightarrow> nat \<Rightarrow> js \<Rightarrow> js \<Rightarrow> 's \<Rightarrow> article \<times> 's" where
  "assemble env d st n_topics n_candidates final prediction s5 =
     (let (new_id, s6) = uuidv4 env s5;
          (now, s7) = Date_now env s6;
          (created, s8) = Date_toISOString env s7
      in (\<lparr>art_id = new_id,
           topic = d_topic d,
           content_length = p_content_length d,
           tone = p_tone d,
           search_depth = p_search_depth d,
           recency_hours = p_recency_hours d,
           quality_threshold = p_quality_threshold d,
           seo_keywords = p_seo_keywords d,
           auto_optimize = p_auto_optimize d,
           include_analytics = p_include_analytics d,
           trending_topics_analyzed = n_topics,
           candidates_generated = n_candidates,
           processing_time_ms = now - fst (Date_now env (snd st)),
           result = final,
           performance_prediction = prediction,
           createdAt = created,
           article_status = ''generated''\<rparr>, s8))"

section \<open>Concrete inputs\<close>

text \<open>
  A configured client, a runtime whose parser accepts only \<open>{}\<close>, and four responses:
  an answer with a given text, a status 400 whose upstream message mentions JSON, a
  success whose body is not JSON, and a success without choices.
\<close>

definition demo_config :: client_config where
  "demo_config =
     \<lparr>apiKey = Some ''sk-demo'',
      apiUrl = ''https://api.openai.com/v1/chat/completions'',
      model = ''gpt-4o-mini''\<rparr>"

definition demo_runtime :: runtime where
  "demo_runtime =
     \<lparr>JSON_parse = (\<lambda>s. if s = ''{}'' then Inr (JObj [])
                          else Inl (SyntaxError ''Unexpected token'')),
      Number_toString = (\<lambda>q. ''NaN'')\<rparr>"

definition answer_with :: "string \<Rightarrow> response" where
  "answer_with text =
     \<lparr>ok = True, status = 200,
      json = Inr (JObj [(''choices'',
               JArr [JObj [(''message'', JObj [(''content'', JStr text)])]])])\<rparr>"

definition response_400 :: response where
  "response_400 =
     \<lparr>ok = False, status = 400,
      json = Inr (JObj [(''error'', JObj [(''message'', JStr ''Invalid JSON payload'')])])\<rparr>"



text \<open>
  A world whose state counts the calls made. Stage 1 throws for the topic \<open>outage\<close>
  and answers two topics otherwise; stage 2 answers or throws as \<open>candidates_ok\<close> says;
  stage 3 answers \<open>selection\<close>; stages 4 and 5 throw.
\<close>

definition demo_env :: "bool \<Rightarrow> js \<Rightarrow> nat env" where
  "demo_env candidates_ok selection =
     \<lparr>getTrendingTopics = (\<lambda>tp depth hours excl s.
        (if tp = Some ''outage'' then Inl (Error ''OpenAI API error: 503 - Unknown error'')
         else Inr [JObj [(''headline'', JStr ''First'')], JObj [(''headline'', JStr ''Second'')]],
         Suc s)),
      generateArticleCandidate = (\<lambda>t len tn seo custom s.
        (if candidates_ok then Inr (JObj [(''title'', JStr ''Draft'')])
         else Inl (Error ''Invalid response from OpenAI API''), Suc s)),
      selectBestArticle = (\<lambda>cs tp thr s. (Inr selection, Suc s)),
      optimizeArticle = (\<lambda>b seo tp s. (Inl (Error ''Invalid response from OpenAI API''), Suc s)),
      predictPerformance = (\<lambda>f tp s. (Inl (Error ''Invalid response from OpenAI API''), Suc s)),
      uuidv4 = (\<lambda>s. (''article-'' @ show_nat s, Suc s)),
      Date_now = (\<lambda>s. (int s, Suc s)),
      Date_toISOString = (\<lambda>s. (''2025-01-01T00:00:00.000Z'', Suc s)),
      setTimeout = (\<lambda>ms s. s + ms),
      StringToNumber = (\<lambda>t. if t = ''2'' then Num 2 else NaN),
      NumberToString = (\<lambda>q. ''NaN'')\<rparr>"

definition demo_request :: "string \<Rightarrow> bool option \<Rightarrow> articleData" where
  "demo_request tp auto_opt =
     \<lparr>d_topic = Some tp, d_article_count = Some (JNum 2), d_content_length = None,
      d_tone = None,
      d_search_depth = None, d_recency_hours = None, d_quality_threshold = None,
      d_seo_keywords = None, d_auto_optimize = auto_opt, d_include_analytics = None,
      d_custom_prompt_addition = None, d_exclude_sources = None\<rparr>"

definition no_shared_params :: articleData where
  "no_shared_params =
     \<lparr>d_topic = None, d_article_count = None, d_content_length = None, d_tone = None,
      d_search_depth = None, d_recency_hours = None, d_quality_threshold = None,
      d_seo_keywords = None, d_auto_optimize = None, d_include_analytics = None,
      d_custom_prompt_addition = None, d_exclude_sources = None\<rparr>"

text \<open>Three stage-3 answers: a well-formed one, one whose \<open>selected_article\<close> is \<open>null\<close>,
  and one that also carries an \<open>optimized_article\<close>.\<close>

definition good_selection :: js where
  "good_selection =
     JObj [(''selected_article'',
              JObj [(''article_index'', JNum 0), (''title'', JStr ''Draft'')])]"

definition null_selection :: js where
  "null_selection = JObj [(''selected_article'', JNull)]"

definition both_selection :: js where
  "both_selection =
     JObj [(''selected_article'',
              JObj [(''article_index'', JNum 0), (''title'', JStr ''Draft'')]),
           (''optimized_article'', JObj [(''title'', JStr ''Draft, improved'')])]"

text \<open>A stage-4 answer, a list of topics for a batch, and a store of two articles.\<close>

definition answering_optimizer :: "js \<Rightarrow> string \<Rightarrow> string option \<Rightarrow> nat \<Rightarrow> (js_error + js) \<times> nat" where
  "answering_optimizer b seo tp s =
     (Inr (JObj [(''optimized_article'', JObj [(''title'', JStr ''Draft, improved'')])]), Suc s)"

text \<open>
  A stage 1 that answers three topics, and shared parameters of a batch request whose
  \<open>article_count\<close> is 2.5.
\<close>

definition three_topics ::
  "string option \<Rightarrow> int \<Rightarrow> int \<Rightarrow> string \<Rightarrow> nat \<Rightarrow> (js_error + js list) \<times> nat" where
  "three_topics tp depth hours excl s =
     (Inr [JObj [(''headline'', JStr ''First'')], JObj [(''headline'', JStr ''Second'')],
           JObj [(''headline'', JStr ''Third'')]], Suc s)"

definition fractional_params :: articleData where
  "fractional_params =
     \<lparr>d_topic = None, d_article_count = Some (JNum (5 / 2)), d_content_length = None,
      d_tone = None, d_search_depth = None, d_recency_hours = None,
      d_quality_threshold = None, d_seo_keywords = None, d_auto_optimize = None,
      d_include_analytics = None, d_custom_prompt_addition = None,
      d_exclude_sources = None\<rparr>"

definition demo_topics :: "string list" where
  "demo_topics = [''AI in Education'', ''outage'', ''Future of Work'']"

definition demo_article :: "string \<Rightarrow> int \<Rightarrow> article" where
  "demo_article i ms =
     \<lparr>art_id = i, topic = Some ''AI in Healthcare'', content_length = ''medium'',
      tone = ''professional'', search_depth = 10, recency_hours = 24, quality_threshold = 7,
      seo_keywords = [], auto_optimize = True, include_analytics = True,
      trending_topics_analyzed = 2, candidates_generated = 2, processing_time_ms = ms,
      result = good_selection, performance_prediction = JNull,
      createdAt = ''2025-01-01T00:00:00.000Z'', article_status = ''generated''\<rparr>"

definition demo_store :: store where
  "demo_store = [(''a'', demo_article ''a'' 1000), (''b'', demo_article ''b'' 2001)]"

section \<open>Auxiliary facts\<close>

lemma split_from_nonempty: "split_from sep cur s \<noteq> []"
  by (induction sep cur s rule: split_from.induct) auto

lemma split_from_two_pieces:
  "str_includes s sep \<Longrightarrow> sep \<noteq> [] \<Longrightarrow> 2 \<le> length (split_from sep cur s)"
proof (induction s arbitrary: cur)
  case Nil
  then show ?case by simp
next
  case (Cons c cs)
  show ?case
  proof (cases "prefix sep (c # cs)")
    case True
    have "1 \<le> length (split_from sep [] (drop (length sep - 1) cs))"
      using split_from_nonempty [of sep "[]" "drop (length sep - 1) cs"]
      by (cases "split_from sep [] (drop (length sep - 1) cs)") auto
    with True show ?thesis by simp
  next
    case False
    with Cons show ?thesis by simp
  qed
qed

lemma mock_topic_pieces:
  "split s sep \<noteq> []"
  "str_includes prompt ''about:'' \<Longrightarrow> 1 < length (split prompt ''about:'')"
  using split_from_nonempty [of sep "[]" s] split_from_two_pieces [of prompt "''about:''" "[]"]
  by (simp_all add: split_def)

lemma content_of_nullish [simp]:
  "content_of JNull = JUndefined" "content_of JUndefined = JUndefined"
  by (simp_all add: content_of_def opt_prop_def)

lemma task_types_of_responses: "map fst (responses prompt) = known_task_types"
  by (simp add: responses_def known_task_types_def)

lemma task_types_of_schemas: "map fst schemas = known_task_types"
  by (simp add: schemas_def known_task_types_def)


lemma trending_mock_topics:
  "\<exists>ts. ts \<noteq> [] \<and>
     get_prop (getMockResponse ''trending_analysis'' prompt) ''trending_topics'' = JArr ts"
  by (simp add: getMockResponse_def responses_def)

lemma unparsable_call:
  assumes "answer_unparsable cfg rt fetch prompt maxTokens temp taskType"
  shows "callOpenAIAPI cfg rt fetch prompt maxTokens temp True taskType =
           Inr (getMockResponse taskType prompt)"
  using assms
  by (auto simp add: answer_unparsable_def callOpenAIAPI_def try_call_def Let_def
      split: option.splits sum.splits js.splits)

lemma below_iff_passes: "below i m \<longleftrightarrow> i < passes m"
proof (cases m)
  case (Limit q)
  have "of_int (int i) < q \<longleftrightarrow> int i < \<lceil>q\<rceil>" by (simp only: less_ceiling_iff)
  moreover have "int i < \<lceil>q\<rceil> \<longleftrightarrow> i < nat \<lceil>q\<rceil>" by linarith
  ultimately show ?thesis using Limit by simp
qed simp_all

lemma candidates_loop_attempts:
  "candidates_loop gen ts m i acc s =
     (acc @ successes (fst (attempts gen ts m i s)), snd (attempts gen ts m i s))"
proof (induction "passes m - i" arbitrary: i acc s)
  case 0
  then have "\<not> i < passes m" by linarith
  then have "\<not> below i m" by (simp add: below_iff_passes)
  then show ?case
    by (simp add: candidates_loop.simps [of gen ts m i] attempts.simps [of gen ts m i])
next
  case (Suc k)
  then have lt: "below i m" and k: "k = passes m - Suc i"
    by (simp_all add: below_iff_passes)
  obtain r s' where g: "gen (ts ! i) s = (r, s')" by (cases "gen (ts ! i) s")
  obtain rs s'' where a: "attempts gen ts m (Suc i) s' = (rs, s'')"
    by (cases "attempts gen ts m (Suc i) s'")
  have IH: "candidates_loop gen ts m (Suc i) acc' s' = (acc' @ successes rs, s'')" for acc'
    using Suc.hyps(1) [OF k, of acc' s'] a by simp
  show ?case
  proof (cases r)
    case (Inl e)
    with lt g a IH show ?thesis
      by (simp add: candidates_loop.simps [of gen ts m i] attempts.simps [of gen ts m i])
  next
    case (Inr c)
    with lt g a IH show ?thesis
      by (simp add: candidates_loop.simps [of gen ts m i] attempts.simps [of gen ts m i])
  qed
qed

lemma length_attempts: "length (fst (attempts gen ts m i s)) = passes m - i"
proof (induction "passes m - i" arbitrary: i s)
  case 0
  then have z: "passes m - i = 0" by simp
  then have "\<not> i < passes m" by linarith
  then have "\<not> below i m" by (simp add: below_iff_passes)
  with z show ?case by (simp add: attempts.simps [of gen ts m i])
next
  case (Suc k)
  then have lt: "below i m" and k: "k = passes m - Suc i"
    by (simp_all add: below_iff_passes)
  obtain r s' where g: "gen (ts ! i) s = (r, s')" by (cases "gen (ts ! i) s")
  obtain rs s'' where a: "attempts gen ts m (Suc i) s' = (rs, s'')"
    by (cases "attempts gen ts m (Suc i) s'")
  have "length rs = k" using Suc.hyps(1) [OF k, of s'] a k by simp
  with lt g a Suc.hyps(2) show ?case
    by (simp add: attempts.simps [of gen ts m i])
qed

lemma length_successes: "length (successes rs) \<le> length rs"
  by (induction rs rule: successes.induct) auto

lemma successes_empty: "successes rs = [] \<longleftrightarrow> list_all isl rs"
  by (induction rs rule: successes.induct) auto

lemma map_of_Map_set: "map_of (Map_set kvs k v) k = Some v"
  by (induction kvs k v rule: Map_set.induct) auto


lemma run_unfold:
  "generateAdvancedArticle env d st =
     (case stage1 env d st of
        (Inl e, s1) \<Rightarrow> (Inl e, (fst st, s1))
      | (Inr ts, s1) \<Rightarrow>
          if ts = []
          then (Inl (Error ''No trending topics found for the specified criteria''), (fst st, s1))
          else (case count_number env d of
            Inl e \<Rightarrow> (Inl e, (fst st, s1))
          | Inr count \<Rightarrow>
           (case stage2 env d ts s1 of (outs, s2) \<Rightarrow>
            if successes outs = []
            then (Inl (Error ''All article generation attempts failed''), (fst st, s2))
            else (case stage3 env d outs s2 of
                    (Inl e, s3) \<Rightarrow> (Inl e, (fst st, s3))
                  | (Inr b, s3) \<Rightarrow>
                      if \<not> has_selection b
                      then (Inl (Error ''Article selection process failed''), (fst st, s3))
                      else (case optimize_stage env (p_auto_optimize d) b (p_seo_keywords d)
                                   (d_topic d) s3 of (final, s4) \<Rightarrow>
                            case predict_stage env (p_include_analytics d) final (d_topic d) s4
                            of (prediction, s5) \<Rightarrow>
                            case assemble env d st (length ts) (length (successes outs))
                                   final prediction s5 of (art, s8) \<Rightarrow>
                              (Inr art, (Map_set (fst st) (art_id art) art, s8)))))))"
  by (simp add: generateAdvancedArticle_def stage1_def stage2_def stage3_def assemble_def
      count_number_def has_selection_def candidates_loop_attempts Let_def case_prod_beta
      split: sum.splits)

lemma stage2_no_count:
  "count_number env d = Inl e \<Longrightarrow> stage2 env d ts s1 = ([], s1)"
  by (simp add: stage2_def)

lemma stage2_length:
  "count_number env d = Inr count \<Longrightarrow>
     length (fst (stage2 env d ts s1)) = passes (Math_min_count count (length ts))"
  by (simp add: stage2_def length_attempts)

lemma candidate_call_without_optimizer [simp]:
  "candidate_call (env\<lparr>optimizeArticle := f\<rparr>) d = candidate_call env d"
  by (rule ext) (simp add: candidate_call_def)

lemma stages_without_optimizer [simp]:
  "stage1 (env\<lparr>optimizeArticle := f\<rparr>) d st = stage1 env d st"
  "count_number (env\<lparr>optimizeArticle := f\<rparr>) d = count_number env d"
  "stage2 (env\<lparr>optimizeArticle := f\<rparr>) d ts s1 = stage2 env d ts s1"
  "stage3 (env\<lparr>optimizeArticle := f\<rparr>) d outs s2 = stage3 env d outs s2"
  "optimize_stage (env\<lparr>optimizeArticle := f\<rparr>) False b seo tp s3 = (b, s3)"
  "optimize_stage env False b seo tp s3 = (b, s3)"
  "predict_stage (env\<lparr>optimizeArticle := f\<rparr>) an fin tp s4 = predict_stage env an fin tp s4"
  "assemble (env\<lparr>optimizeArticle := f\<rparr>) d st n m fin pr s5 = assemble env d st n m fin pr s5"
  by (simp_all add: stage1_def stage2_def stage3_def optimize_stage_def predict_stage_def
      assemble_def candidate_call_def count_number_def fun_eq_iff split: sum.splits)

lemma run_without_optimizer:
  assumes "\<not> p_auto_optimize d"
  shows "generateAdvancedArticle (env\<lparr>optimizeArticle := f\<rparr>) d st
           = generateAdvancedArticle env d st"
proof -
  from assms have off: "p_auto_optimize d = False" by simp
  show ?thesis
    unfolding run_unfold [of "env\<lparr>optimizeArticle := f\<rparr>"] run_unfold [of env] off
    by (simp cong: prod.case_cong sum.case_cong if_cong)
qed

lemma batch_step_entry:
  "entry_topic (fst (batch_step env sp n i tp st)) = tp
   \<and> entry_index (fst (batch_step env sp n i tp st)) = i
   \<and> (case fst (generateAdvancedArticle env (requestData tp sp) st) of
         Inl err \<Rightarrow> entry_status (fst (batch_step env sp n i tp st)) = ''error''
                   \<and> entry_error (fst (batch_step env sp n i tp st)) = Some (message err)
       | Inr art \<Rightarrow> entry_status (fst (batch_step env sp n i tp st)) = ''success''
                   \<and> entry_article_id (fst (batch_step env sp n i tp st)) = Some (art_id art))"
  by (simp add: batch_step_def split: prod.splits sum.splits)

lemma batch_loop_from:
  assumes "topics = pre @ rest"
  shows "batch_loop env sp (length topics) (length pre) rest results
           (batch_state env sp topics (length pre) st0)
         = (results @ map (\<lambda>i. fst (batch_step env sp (length topics) i (topics ! i)
                                   (batch_state env sp topics i st0)))
                        [length pre..<length topics],
            batch_state env sp topics (length topics) st0)"
  using assms
proof (induction rest arbitrary: pre results)
  case Nil
  then show ?case by simp
next
  case (Cons tp rest)
  then have tp: "topics ! length pre = tp" and split: "topics = (pre @ [tp]) @ rest"
    and lt: "length pre < length topics"
    by simp_all
  have upt: "[length pre..<length topics] = length pre # [Suc (length pre)..<length topics]"
    using lt by (simp add: upt_conv_Cons)
  from Cons.IH [OF split, of "results @ [fst (batch_step env sp (length topics) (length pre) tp
        (batch_state env sp topics (length pre) st0))]"]
  show ?case
    by (simp add: tp upt case_prod_beta)
qed

lemma foldl_processing_time:
  "foldl (\<lambda>sum a. sum + processing_time_ms a) z xs = z + sum_list (map processing_time_ms xs)"
  by (induction xs arbitrary: z) simp_all

lemma Math_round_nearest: "\<bar>of_int (Math_round q) - q\<bar> \<le> 1 / 2"
  unfolding Math_round_def by linarith

lemma demo_stage1:
  "stage1 (demo_env cok sel) (demo_request ''AI in Healthcare'' ao) ([], 0)
     = (Inr [JObj [(''headline'', JStr ''First'')], JObj [(''headline'', JStr ''Second'')]], 2)"
  by (simp add: stage1_def demo_env_def demo_request_def)

lemma demo_count:
  "count_number (demo_env cok sel) (demo_request tp ao) = Inr (Num 2)"
  by (simp add: count_number_def demo_env_def demo_request_def p_article_count_def)

lemma demo_stage2:
  "stage2 (demo_env cok sel) (demo_request ''AI in Healthcare'' ao)
     [JObj [(''headline'', JStr ''First'')], JObj [(''headline'', JStr ''Second'')]] 2
     = (if cok then [Inr (JObj [(''title'', JStr ''Draft'')]), Inr (JObj [(''title'', JStr ''Draft'')])]
        else [Inl (Error ''Invalid response from OpenAI API''),
              Inl (Error ''Invalid response from OpenAI API'')], 4)"
  by (simp add: stage2_def demo_count)
     (simp add: demo_env_def candidate_call_def attempts.simps)

lemma demo_stage3:
  "stage3 (demo_env cok sel) (demo_request ''AI in Healthcare'' ao) outs 4 = (Inr sel, 5)"
  by (simp add: stage3_def demo_env_def)

lemma demo_run_returns:
  "\<not> isl (fst (generateAdvancedArticle (demo_env True sel)
               (demo_request ''AI in Healthcare'' ao) ([], 0)))" if "has_selection sel"
  using that
  by (simp add: run_unfold demo_stage1 demo_count demo_stage2 demo_stage3 case_prod_beta)

lemma demo_topics_run1:
  "isl (fst (generateAdvancedArticle (demo_env True good_selection)
          (requestData ''outage'' no_shared_params) st))"
  by (simp add: run_unfold stage1_def demo_env_def requestData_def
      no_shared_params_def case_prod_beta)

lemma passes_integer_count:
  "passes (Math_min_count (Num (of_int k)) n) = nat (min k (int n))"
proof -
  have "min (rat_of_int k) (of_nat n) = of_int (min k (int n))"
    by (simp add: min_def)
  then show ?thesis by (simp del: of_int_min)
qed

lemma candidates_generated_bound_integer_count:
  assumes "count_number env d = Inr (Num (of_int k))"
    and "generateAdvancedArticle env d st = (Inr art, st')"
  shows "1 \<le> candidates_generated art
       \<and> int (candidates_generated art) \<le> min k (int (trending_topics_analyzed art))"
proof -
  obtain r1 s1 where s1: "stage1 env d st = (r1, s1)" by (cases "stage1 env d st")
  obtain ts where r1: "r1 = Inr ts" and ts: "ts \<noteq> []"
    using assms s1 by (cases r1) (auto simp add: run_unfold split: if_splits)
  obtain outs s2 where s2: "stage2 env d ts s1 = (outs, s2)" by (cases "stage2 env d ts s1")
  have "length (fst (stage2 env d ts s1)) = passes (Math_min_count (Num (of_int k)) (length ts))"
    by (rule stage2_length [OF assms(1)])
  then have len: "length outs = nat (min k (int (length ts)))"
    unfolding passes_integer_count s2 by simp
  have le: "length (successes outs) \<le> length outs" by (rule length_successes)
  from assms s1 r1 ts s2 have cg: "candidates_generated art = length (successes outs)"
    and tta: "trending_topics_analyzed art = length ts" and ne: "successes outs \<noteq> []"
    by (auto simp add: run_unfold assemble_def case_prod_beta Let_def
        split: sum.splits prod.splits if_splits)
  from ne have "0 < length (successes outs)" by simp
  with le len cg tta show ?thesis by linarith
qed

lemma no_candidates_throws:
  assumes "stage1 env d st = (Inr ts, s1)" and "ts \<noteq> []"
    and "stage2 env d ts s1 = (outs, s2)" and "successes outs = []"
  shows "isl (fst (generateAdvancedArticle env d st))"
    and "count_number env d = Inr count \<Longrightarrow>
           fst (generateAdvancedArticle env d st)
             = Inl (Error ''All article generation attempts failed'')"
  using assms by (simp_all add: run_unfold split: sum.splits)

section \<open>Properties of the generation client\<close>

text \<open>
  Claim C4. \<open>cleanJSONResponse\<close> is to cut the prose before the first \<open>{\<close> or \<open>[\<close>,
  whichever comes first, so that valid JSON wrapped in prose or fences parses as itself
  after cleaning. The code takes the later of the two first positions: a JSON object
  that holds an array, given with no prose at all, loses everything before the array,
  and so does an answer of the shape stage 1 asks for.
\<close>

theorem cleanJSONResponse_cuts_object_with_array:
  \<open>cleanJSONResponse ''{"a":[1]}'' = ''[1]}''
   \<and> cleanJSONResponse ''{"trending_topics":[]}'' = ''[]}''\<close>
  by (simp add: cleanJSONResponse_def indexOf_def lastIndexOf_def trim_def is_space_def)

text \<open>
  Claim C6. For each of the five task types, the mock response conforms to the schema
  \<open>getJSONSchema\<close> returns for it, whatever the prompt: every required field is there
  with the declared type, and no field outside the declared properties appears.
\<close>

theorem mock_conforms_to_schema:
  assumes "t \<in> set known_task_types"
  shows "\<exists>d. getJSONSchema t = Some (Descriptor d)
            \<and> conforms (schema d) (getMockResponse t prompt)"
  using assms unfolding known_task_types_def
  by (auto simp add: getJSONSchema_def schemas_def getMockResponse_def responses_def
      str_array_def string_array_def)

theorem mock_conforms_to_schema_witness:
  "''article_generation'' \<in> set known_task_types
   \<and> (\<exists>d. getJSONSchema ''article_generation'' = Some (Descriptor d)
          \<and> conforms (schema d)
               (getMockResponse ''article_generation'' ''Write a high-quality article about: Tea''))"
proof -
  have h: "''article_generation'' \<in> set known_task_types"
    by (simp add: known_task_types_def)
  from h mock_conforms_to_schema [OF h] show ?thesis by simp
qed




text \<open>
  Claim C3. A call that asks for JSON and whose answer does not parse after cleaning
  does not throw: it returns the mock response of its task type and prompt. Hence two
  such calls with the same task type and prompt return equal values, and for
  \<open>trending_analysis\<close> the value has a non-empty array \<open>trending_topics\<close>.
\<close>

theorem unparsable_answer_gives_mock:
  assumes "answer_unparsable cfg rt fetch prompt maxTokens temp taskType"
    and "answer_unparsable cfg' rt' fetch' prompt maxTokens' temp' taskType"
  shows "callOpenAIAPI cfg rt fetch prompt maxTokens temp True taskType =
           Inr (getMockResponse taskType prompt)
       \<and> callOpenAIAPI cfg' rt' fetch' prompt maxTokens' temp' True taskType =
           callOpenAIAPI cfg rt fetch prompt maxTokens temp True taskType
       \<and> (taskType = ''trending_analysis'' \<longrightarrow>
            (\<exists>ts. ts \<noteq> [] \<and>
               get_prop (getMockResponse taskType prompt) ''trending_topics'' = JArr ts))"
  using unparsable_call [OF assms(1)] unparsable_call [OF assms(2)] trending_mock_topics
  by simp

theorem unparsable_answer_gives_mock_witness:
  "answer_unparsable demo_config demo_runtime (\<lambda>r. Inr (answer_with ''I cannot do that''))
     ''Analyze: tea'' 1500 (3 / 10) ''trending_analysis''
   \<and> answer_unparsable demo_config demo_runtime (\<lambda>r. Inr (answer_with ''No topics today''))
     ''Analyze: tea'' 1500 (3 / 10) ''trending_analysis''
   \<and> callOpenAIAPI demo_config demo_runtime (\<lambda>r. Inr (answer_with ''I cannot do that''))
       ''Analyze: tea'' 1500 (3 / 10) True ''trending_analysis''
     = Inr (getMockResponse ''trending_analysis'' ''Analyze: tea'')
   \<and> callOpenAIAPI demo_config demo_runtime (\<lambda>r. Inr (answer_with ''No topics today''))
       ''Analyze: tea'' 1500 (3 / 10) True ''trending_analysis''
     = callOpenAIAPI demo_config demo_runtime (\<lambda>r. Inr (answer_with ''I cannot do that''))
       ''Analyze: tea'' 1500 (3 / 10) True ''trending_analysis''
   \<and> (\<exists>ts. ts \<noteq> [] \<and>
          get_prop (getMockResponse ''trending_analysis'' ''Analyze: tea'') ''trending_topics''
            = JArr ts)"
proof -
  have h1: "answer_unparsable demo_config demo_runtime
              (\<lambda>r. Inr (answer_with ''I cannot do that''))
              ''Analyze: tea'' 1500 (3 / 10) ''trending_analysis''"
    by (simp add: answer_unparsable_def demo_config_def demo_runtime_def answer_with_def
        content_of_def opt_prop_def cleanJSONResponse_def indexOf_def lastIndexOf_def
        trim_def is_space_def)
  have h2: "answer_unparsable demo_config demo_runtime (\<lambda>r. Inr (answer_with ''No topics today''))
              ''Analyze: tea'' 1500 (3 / 10) ''trending_analysis''"
    by (simp add: answer_unparsable_def demo_config_def demo_runtime_def answer_with_def
        content_of_def opt_prop_def cleanJSONResponse_def indexOf_def lastIndexOf_def
        trim_def is_space_def)
  from h1 h2 unparsable_answer_gives_mock [OF h1 h2] show ?thesis by simp
qed




text \<open>
  Outside the amended claim: the test of the outer \<open>catch\<close> looks for the text \<open>JSON\<close>
  in the message of any error, so it also takes the error of a status 400 whose
  upstream message mentions JSON for a parsing error, and returns the mock response.
\<close>

lemma non_success_status_with_JSON_in_message:
  "\<not> ok response_400
   \<and> callOpenAIAPI demo_config demo_runtime (\<lambda>r. Inr response_400)
       ''Analyze: tea'' 1500 (3 / 10) True ''trending_analysis''
     = Inr (getMockResponse ''trending_analysis'' ''Analyze: tea'')"
  by (simp add: callOpenAIAPI_def demo_config_def try_call_def response_400_def
      not_ok_error_def errorData_of_def upstream_message_def opt_prop_def show_nat.simps
      digit_def)

section \<open>Properties of the pipeline\<close>

text \<open>
  Claim C1, as stated: the run throws exactly when stage 1 throws or answers no topic,
  or every stage-2 call throws, or stage 3 throws or its answer lacks the field
  \<open>selected_article\<close>. The run below throws although stage 1 answers two topics, both
  candidates are generated, and stage 3 answers an object that has the field, with the
  value \<open>null\<close>.
\<close>

theorem throws_with_null_selected_article:
  "isl (fst (generateAdvancedArticle (demo_env True null_selection)
          (demo_request ''AI in Healthcare'' None) ([], 0)))
   \<and> \<not> isl (fst (stage1 (demo_env True null_selection)
          (demo_request ''AI in Healthcare'' None) ([], 0)))
   \<and> answered (fst (stage1 (demo_env True null_selection)
          (demo_request ''AI in Healthcare'' None) ([], 0))) \<noteq> []
   \<and> \<not> list_all isl (fst (stage2 (demo_env True null_selection)
          (demo_request ''AI in Healthcare'' None)
          [JObj [(''headline'', JStr ''First'')], JObj [(''headline'', JStr ''Second'')]] 2))
   \<and> fst (stage3 (demo_env True null_selection) (demo_request ''AI in Healthcare'' None)
          [Inr (JObj [(''title'', JStr ''Draft'')]), Inr (JObj [(''title'', JStr ''Draft'')])] 4)
       = Inr null_selection
   \<and> map_of (own_props null_selection) ''selected_article'' = Some JNull"
  by (simp add: run_unfold demo_stage1 demo_count demo_stage2 demo_stage3 has_selection_def
      null_selection_def)

text \<open>
  Claim C1, amended. Name the outcomes of the stage 1, 2 and 3 calls of a run. The run
  throws exactly when stage 1 throws or answers no topic, or every stage-2 call throws,
  or stage 3 throws or answers a value that is falsy or whose \<open>selected_article\<close> is
  absent or falsy. Stages 4 and 5 are not among the conditions: in every other case the
  run returns an article, which is stored under its id; when stage 4 is asked for and
  throws, the result of the article is the stage-3 answer, and when stage 5 is asked for
  and throws, its \<open>performance_prediction\<close> is \<open>null\<close>.
\<close>

theorem pipeline_throws_iff:
  assumes "stage1 env d st = (r1, s1)"
    and "stage2 env d (answered r1) s1 = (outs, s2)"
    and "stage3 env d outs s2 = (r3, s3)"
  shows "(isl (fst (generateAdvancedArticle env d st)) \<longleftrightarrow>
           isl r1 \<or> answered r1 = [] \<or> list_all isl outs \<or> isl r3
           \<or> (\<exists>b. r3 = Inr b \<and> \<not> has_selection b))
       \<and> (\<not> isl (fst (generateAdvancedArticle env d st)) \<longrightarrow>
           (\<exists>art b. fst (generateAdvancedArticle env d st) = Inr art \<and> r3 = Inr b
              \<and> map_of (fst (snd (generateAdvancedArticle env d st))) (art_id art) = Some art
              \<and> (p_auto_optimize d
                   \<and> isl (fst (optimizeArticle env b (p_seo_keywords d) (d_topic d) s3))
                  \<longrightarrow> result art = b)
              \<and> (p_include_analytics d
                   \<and> isl (fst (predictPerformance env (result art) (d_topic d)
                         (snd (optimize_stage env (p_auto_optimize d) b (p_seo_keywords d)
                                 (d_topic d) s3))))
                  \<longrightarrow> performance_prediction art = JNull)))"
proof (cases r1)
  case (Inl e)
  with assms(1) show ?thesis by (simp add: run_unfold)
next
  case (Inr ts)
  note r1 = this
  show ?thesis
  proof (cases "ts = []")
    case True
    with r1 assms(1) show ?thesis by (simp add: run_unfold)
  next
    case False
    note ts = this
    show ?thesis
    proof (cases "count_number env d")
      case (Inl e)
      with r1 assms(2) have "outs = []" by (simp add: stage2_no_count)
      with Inl r1 ts assms(1) show ?thesis by (simp add: run_unfold)
    next
      case (Inr count)
      note cnt = this
      show ?thesis
      proof (cases "successes outs = []")
        case True
        with r1 ts cnt assms(1,2) show ?thesis
          by (simp add: run_unfold successes_empty)
      next
        case False
        note outs = this
        then have nall: "\<not> list_all isl outs" by (simp add: successes_empty)
        show ?thesis
        proof (cases r3)
          case (Inl e)
          with r1 ts cnt outs assms show ?thesis by (simp add: run_unfold)
        next
          case (Inr b)
          note r3 = this
          show ?thesis
          proof (cases "has_selection b")
            case False
            with r1 ts cnt outs r3 assms show ?thesis by (simp add: run_unfold)
          next
            case True
            with r1 ts cnt outs nall r3 assms show ?thesis
              by (auto simp add: run_unfold assemble_def optimize_stage_def predict_stage_def
                  map_of_Map_set case_prod_beta Let_def split: sum.splits prod.splits)
          qed
        qed
      qed
    qed
  qed
qed

theorem pipeline_throws_iff_witness:
  "\<not> isl (fst (generateAdvancedArticle (demo_env True good_selection)
               (demo_request ''AI in Healthcare'' None) ([], 0)))
   \<and> result (projr (fst (generateAdvancedArticle (demo_env True good_selection)
               (demo_request ''AI in Healthcare'' None) ([], 0)))) = good_selection
   \<and> performance_prediction (projr (fst (generateAdvancedArticle (demo_env True good_selection)
               (demo_request ''AI in Healthcare'' None) ([], 0)))) = JNull"
proof -
  let ?E = "demo_env True good_selection"
  let ?D = "demo_request ''AI in Healthcare'' None"
  let ?c = "Inr (JObj [(''title'', JStr ''Draft'')]) :: js_error + js"
  have s1: "stage1 ?E ?D ([], 0)
     = (Inr [JObj [(''headline'', JStr ''First'')], JObj [(''headline'', JStr ''Second'')]], 2)"
    by (rule demo_stage1)
  have s2: "stage2 ?E ?D
     (answered (Inr [JObj [(''headline'', JStr ''First'')], JObj [(''headline'', JStr ''Second'')]]))
     2 = ([?c, ?c], 4)"
    by (simp add: demo_stage2)
  have s3: "stage3 ?E ?D [?c, ?c] 4 = (Inr good_selection, 5)"
    by (rule demo_stage3)
  have sel: "has_selection good_selection"
    by (simp add: has_selection_def good_selection_def)
  have opt: "p_auto_optimize ?D
     \<and> isl (fst (optimizeArticle ?E good_selection (p_seo_keywords ?D) (d_topic ?D) 5))"
    by (simp add: p_auto_optimize_def articleDefaults_autoOptimize_def demo_request_def
        demo_env_def)
  have pred: "p_include_analytics ?D \<and> isl (fst (predictPerformance ?E x (d_topic ?D) y))" for x y
    by (simp add: p_include_analytics_def articleDefaults_includeAnalytics_def demo_request_def
        demo_env_def)
  from pipeline_throws_iff [OF s1 s2 s3] sel opt pred show ?thesis
    by auto
qed

text \<open>
  Claim C2. A run that returns is to store
  \<open>1 \<le> candidates_generated \<le> min(article_count, trending_topics_analyzed)\<close>. The
  route \<open>generate-advanced\<close> admits only an integer \<open>article_count\<close>, and then the bound
  holds (lemma \<open>candidates_generated_bound_integer_count\<close>); a run without a candidate
  throws (lemma \<open>no_candidates_throws\<close>). The route \<open>generate-batch\<close> has no rule for
  \<open>article_count\<close>: with 2.5 and three topics \<open>Math.min\<close> is 2.5, the loop runs for
  \<open>i\<close> = 0, 1 and 2, and the stored article has three candidates, more than 2.5.
\<close>

theorem fractional_article_count_exceeds_bound:
  "p_article_count (requestData ''AI in Education'' fractional_params) = JNum (5 / 2)
   \<and> \<not> isl (fst (generateAdvancedArticle
          ((demo_env True good_selection)\<lparr>getTrendingTopics := three_topics\<rparr>)
          (requestData ''AI in Education'' fractional_params) ([], 0)))
   \<and> trending_topics_analyzed (projr (fst (generateAdvancedArticle
          ((demo_env True good_selection)\<lparr>getTrendingTopics := three_topics\<rparr>)
          (requestData ''AI in Education'' fractional_params) ([], 0)))) = 3
   \<and> candidates_generated (projr (fst (generateAdvancedArticle
          ((demo_env True good_selection)\<lparr>getTrendingTopics := three_topics\<rparr>)
          (requestData ''AI in Education'' fractional_params) ([], 0)))) = 3
   \<and> map (candidates_generated \<circ> snd)
         (fst (snd (generateBatchArticles
            ((demo_env True good_selection)\<lparr>getTrendingTopics := three_topics\<rparr>)
            [''AI in Education''] fractional_params ([], 0)))) = [3]"
  by code_simp

theorem fractional_article_count_exceeds_bound_witness:
  "\<not> rat_of_nat (candidates_generated (projr (fst (generateAdvancedArticle
          ((demo_env True good_selection)\<lparr>getTrendingTopics := three_topics\<rparr>)
          (requestData ''AI in Education'' fractional_params) ([], 0)))))
       \<le> min (5 / 2) (rat_of_nat (trending_topics_analyzed (projr (fst
          (generateAdvancedArticle
            ((demo_env True good_selection)\<lparr>getTrendingTopics := three_topics\<rparr>)
            (requestData ''AI in Education'' fractional_params) ([], 0))))))"
  using fractional_article_count_exceeds_bound by simp

text \<open>
  Claim C7, as stated: with \<open>auto_optimize\<close> false the result of a run that returns
  never has an \<open>optimized_article\<close> key. The result is the stage-3 answer as it came,
  and nothing checks its other keys: when stage 3 answers an object that carries both
  \<open>selected_article\<close> and \<open>optimized_article\<close>, so does the result.
\<close>

theorem selection_with_optimized_article_key:
  "\<not> p_auto_optimize (demo_request ''AI in Healthcare'' (Some False))
   \<and> \<not> isl (fst (generateAdvancedArticle (demo_env True both_selection)
               (demo_request ''AI in Healthcare'' (Some False)) ([], 0)))
   \<and> map_of (own_props (result (projr (fst (generateAdvancedArticle (demo_env True both_selection)
               (demo_request ''AI in Healthcare'' (Some False)) ([], 0))))))
        ''optimized_article'' \<noteq> None"
  by code_simp

text \<open>
  Claim C7, amended. With \<open>auto_optimize\<close> false, the result of a run that returns is
  exactly the stage-3 answer, whose \<open>selected_article\<close> is truthy (so it has an
  \<open>optimized_article\<close> key only if stage 3 answered one); the article is stored; and the
  optimization stage is not called: the run is the same whatever \<open>optimizeArticle\<close>
  would do.
\<close>

theorem no_optimize_result_is_selection:
  assumes "\<not> p_auto_optimize d"
    and "generateAdvancedArticle env d st = (Inr art, st')"
    and "stage1 env d st = (r1, s1)"
    and "stage2 env d (answered r1) s1 = (outs, s2)"
    and "stage3 env d outs s2 = (r3, s3)"
  shows "r3 = Inr (result art)
       \<and> truthy (get_prop (result art) ''selected_article'')
       \<and> map_of (fst st') (art_id art) = Some art
       \<and> (\<forall>f. generateAdvancedArticle (env\<lparr>optimizeArticle := f\<rparr>) d st
                = generateAdvancedArticle env d st)"
proof -
  have inv: "\<forall>f. generateAdvancedArticle (env\<lparr>optimizeArticle := f\<rparr>) d st
                = generateAdvancedArticle env d st"
    using run_without_optimizer [OF assms(1)] by blast
  from assms have "r3 = Inr (result art)
       \<and> truthy (get_prop (result art) ''selected_article'')
       \<and> map_of (fst st') (art_id art) = Some art"
    by (cases r1; cases r3)
       (auto simp add: run_unfold assemble_def optimize_stage_def has_selection_def
          map_of_Map_set case_prod_beta Let_def split: if_splits prod.splits sum.splits)
  with inv show ?thesis by blast
qed

theorem no_optimize_result_is_selection_witness:
  "\<not> p_auto_optimize (demo_request ''AI in Healthcare'' (Some False))
   \<and> result (projr (fst (generateAdvancedArticle (demo_env True good_selection)
               (demo_request ''AI in Healthcare'' (Some False)) ([], 0)))) = good_selection
   \<and> generateAdvancedArticle ((demo_env True good_selection)\<lparr>optimizeArticle := answering_optimizer\<rparr>)
        (demo_request ''AI in Healthcare'' (Some False)) ([], 0)
      = generateAdvancedArticle (demo_env True good_selection)
        (demo_request ''AI in Healthcare'' (Some False)) ([], 0)"
proof -
  let ?E = "demo_env True good_selection"
  let ?D = "demo_request ''AI in Healthcare'' (Some False)"
  let ?ts = "[JObj [(''headline'', JStr ''First'')], JObj [(''headline'', JStr ''Second'')]]"
  let ?R = "generateAdvancedArticle ?E ?D ([], 0)"
  have off: "\<not> p_auto_optimize ?D"
    by (simp add: p_auto_optimize_def demo_request_def)
  have sel: "has_selection good_selection"
    by (simp add: has_selection_def good_selection_def)
  have run: "?R = (Inr (projr (fst ?R)), snd ?R)"
    using demo_run_returns [OF sel, of "Some False"] by (cases ?R) auto
  have s2: "stage2 ?E ?D (answered (Inr ?ts)) 2 = (fst (stage2 ?E ?D ?ts 2), 4)"
    by (simp add: demo_stage2)
  from off no_optimize_result_is_selection [OF off run demo_stage1 s2 demo_stage3]
  show ?thesis by simp
qed

section \<open>Properties of the batch and of the statistics\<close>

text \<open>
  Claim C8. The batch returns one entry per topic, in order: entry \<open>i\<close> has the \<open>i\<close>-th
  topic and index \<open>i\<close>; \<open>total_topics\<close> is the number of topics and
  \<open>successful_generations\<close> the number of entries with status \<open>success\<close>. If the run
  for topic \<open>i\<close> throws, its entry has status \<open>error\<close> and the message of the error,
  and otherwise status \<open>success\<close> and the id of the article; in both cases the loop goes
  on to the next topic. This holds for every list of topics, the empty one included.
\<close>

theorem batch_one_entry_per_topic:
  "length (batch_results (fst (generateBatchArticles env topics sharedParams st))) = length topics
   \<and> total_topics (fst (generateBatchArticles env topics sharedParams st)) = length topics
   \<and> successful_generations (fst (generateBatchArticles env topics sharedParams st))
       = length (filter (\<lambda>r. entry_status r = ''success'')
                   (batch_results (fst (generateBatchArticles env topics sharedParams st))))
   \<and> (\<forall>i<length topics.
         entry_topic (batch_results (fst (generateBatchArticles env topics sharedParams st)) ! i)
           = topics ! i
       \<and> entry_index (batch_results (fst (generateBatchArticles env topics sharedParams st)) ! i)
           = i
       \<and> (case fst (generateAdvancedArticle env (requestData (topics ! i) sharedParams)
                     (batch_state env sharedParams topics i
                        (fst st, snd (Date_now env (snd st))))) of
             Inl err \<Rightarrow>
               entry_status
                 (batch_results (fst (generateBatchArticles env topics sharedParams st)) ! i)
                 = ''error''
               \<and> entry_error
                 (batch_results (fst (generateBatchArticles env topics sharedParams st)) ! i)
                 = Some (message err)
           | Inr art \<Rightarrow>
               entry_status
                 (batch_results (fst (generateBatchArticles env topics sharedParams st)) ! i)
                 = ''success''
               \<and> entry_article_id
                 (batch_results (fst (generateBatchArticles env topics sharedParams st)) ! i)
                 = Some (art_id art)))"
proof -
  define st0 where "st0 = (fst st, snd (Date_now env (snd st)))"
  define entries where "entries = map (\<lambda>i. fst (batch_step env sharedParams (length topics) i
       (topics ! i) (batch_state env sharedParams topics i st0))) [0..<length topics]"
  have loop: "batch_loop env sharedParams (length topics) 0 topics [] st0
                = (entries, batch_state env sharedParams topics (length topics) st0)"
    using batch_loop_from [of topics "[]" topics env sharedParams "[]" st0]
    by (simp add: entries_def)
  have res: "batch_results (fst (generateBatchArticles env topics sharedParams st)) = entries"
    and tot: "total_topics (fst (generateBatchArticles env topics sharedParams st)) = length topics"
    and suc: "successful_generations (fst (generateBatchArticles env topics sharedParams st))
       = length (filter (\<lambda>r. entry_status r = ''success'') entries)"
    using loop by (simp_all add: generateBatchArticles_def st0_def case_prod_beta Let_def)
  have len: "length entries = length topics" by (simp add: entries_def)
  have nth: "entries ! i = fst (batch_step env sharedParams (length topics) i (topics ! i)
       (batch_state env sharedParams topics i st0))" if "i < length topics" for i
    using that by (simp add: entries_def)
  have ent: "entry_topic (entries ! i) = topics ! i \<and> entry_index (entries ! i) = i
       \<and> (case fst (generateAdvancedArticle env (requestData (topics ! i) sharedParams)
                     (batch_state env sharedParams topics i st0)) of
             Inl err \<Rightarrow> entry_status (entries ! i) = ''error''
                       \<and> entry_error (entries ! i) = Some (message err)
           | Inr art \<Rightarrow> entry_status (entries ! i) = ''success''
                       \<and> entry_article_id (entries ! i) = Some (art_id art))"
    if "i < length topics" for i
    unfolding nth [OF that] by (rule batch_step_entry)
  show ?thesis
    unfolding res tot suc st0_def [symmetric]
    using len ent by blast
qed

theorem batch_one_entry_per_topic_witness:
  "1 < length demo_topics
   \<and> length (batch_results (fst (generateBatchArticles (demo_env True good_selection)
        demo_topics no_shared_params ([], 0)))) = 3
   \<and> entry_topic (batch_results (fst (generateBatchArticles (demo_env True good_selection)
        demo_topics no_shared_params ([], 0))) ! 1) = ''outage''
   \<and> entry_index (batch_results (fst (generateBatchArticles (demo_env True good_selection)
        demo_topics no_shared_params ([], 0))) ! 1) = 1
   \<and> entry_status (batch_results (fst (generateBatchArticles (demo_env True good_selection)
        demo_topics no_shared_params ([], 0))) ! 1) = ''error''"
proof -
  have l: "1 < length demo_topics" and n: "length demo_topics = 3"
    and t: "demo_topics ! 1 = ''outage''"
    by (simp_all add: demo_topics_def)
  from batch_one_entry_per_topic
    [of "demo_env True good_selection" demo_topics no_shared_params "([], 0)"] l
  have "length (batch_results (fst (generateBatchArticles (demo_env True good_selection)
        demo_topics no_shared_params ([], 0)))) = length demo_topics
     \<and> entry_topic (batch_results (fst (generateBatchArticles (demo_env True good_selection)
        demo_topics no_shared_params ([], 0))) ! 1) = demo_topics ! 1
     \<and> entry_index (batch_results (fst (generateBatchArticles (demo_env True good_selection)
        demo_topics no_shared_params ([], 0))) ! 1) = 1
     \<and> (case fst (generateAdvancedArticle (demo_env True good_selection)
                   (requestData (demo_topics ! 1) no_shared_params)
                   (batch_state (demo_env True good_selection) no_shared_params demo_topics 1
                      (fst ([], 0 :: nat), snd (Date_now (demo_env True good_selection)
                         (snd ([] :: store, 0 :: nat)))))) of
           Inl err \<Rightarrow>
             entry_status (batch_results (fst (generateBatchArticles
               (demo_env True good_selection) demo_topics no_shared_params ([], 0))) ! 1)
               = ''error''
             \<and> entry_error (batch_results (fst (generateBatchArticles
               (demo_env True good_selection) demo_topics no_shared_params ([], 0))) ! 1)
               = Some (message err)
         | Inr art \<Rightarrow>
             entry_status (batch_results (fst (generateBatchArticles
               (demo_env True good_selection) demo_topics no_shared_params ([], 0))) ! 1)
               = ''success''
             \<and> entry_article_id (batch_results (fst (generateBatchArticles
               (demo_env True good_selection) demo_topics no_shared_params ([], 0))) ! 1)
               = Some (art_id art))"
    by blast
  with l n t show ?thesis
    by (cases "fst (generateAdvancedArticle (demo_env True good_selection)
                   (requestData ''outage'' no_shared_params)
                   (batch_state (demo_env True good_selection) no_shared_params demo_topics 1
                      (fst ([], 0 :: nat), snd (Date_now (demo_env True good_selection)
                         (snd ([] :: store, 0 :: nat))))))")
       (use demo_topics_run1 [of "batch_state (demo_env True good_selection) no_shared_params
           demo_topics 1 (fst ([], 0 :: nat), snd (Date_now (demo_env True good_selection)
                         (snd ([] :: store, 0 :: nat))))"] in simp_all)
qed

text \<open>
  Claim C9, as stated: the statistics have the fields \<open>total\<close> and
  \<open>average_processing_time_ms\<close>. The object \<open>getArticleStats\<close> returns has neither; it
  names them \<open>total_articles\<close> and \<open>average_processing_time\<close>.
\<close>

theorem stats_field_names_differ:
  "get_prop (getArticleStats []) ''total'' = JUndefined
   \<and> get_prop (getArticleStats []) ''average_processing_time_ms'' = JUndefined
   \<and> get_prop (getArticleStats []) ''total_articles'' = JNum 0
   \<and> get_prop (getArticleStats []) ''average_processing_time'' = JNum 0"
  by (simp add: getArticleStats_def Object_prototype_props_def)

text \<open>
  Claim C9, amended. For every store, the statistics are an object with the fields
  \<open>total_articles\<close>, \<open>by_status\<close>, \<open>by_tone\<close>, \<open>by_length\<close> and
  \<open>average_processing_time\<close>, in this order; \<open>total_articles\<close> is the number of stored
  articles, and \<open>average_processing_time\<close> is 0 for the empty store and otherwise the
  mean of the stored \<open>processing_time_ms\<close> rounded to the nearest integer, a half going
  up.
\<close>

theorem stats_fields_and_average:
  "map fst (own_props (getArticleStats articles))
     = [''total_articles'', ''by_status'', ''by_tone'', ''by_length'', ''average_processing_time'']
   \<and> get_prop (getArticleStats articles) ''total_articles'' = JNum (of_nat (length articles))
   \<and> (\<exists>r. get_prop (getArticleStats articles) ''average_processing_time'' = JNum (of_int r)
          \<and> (articles = [] \<longrightarrow> r = 0)
          \<and> (articles \<noteq> [] \<longrightarrow>
                r = \<lfloor>mean (map (processing_time_ms \<circ> snd) articles) + 1 / 2\<rfloor>
              \<and> \<bar>of_int r - mean (map (processing_time_ms \<circ> snd) articles)\<bar> \<le> 1 / 2))"
proof (cases "articles = []")
  case True
  then show ?thesis by (simp add: getArticleStats_def)
next
  case False
  let ?m = "mean (map (processing_time_ms \<circ> snd) articles)"
  have avg: "get_prop (getArticleStats articles) ''average_processing_time''
               = JNum (of_int (Math_round ?m))"
    using False
    by (simp add: getArticleStats_def Let_def foldl_processing_time mean_def comp_def)
  have fields: "map fst (own_props (getArticleStats articles))
     = [''total_articles'', ''by_status'', ''by_tone'', ''by_length'', ''average_processing_time'']"
    and total: "get_prop (getArticleStats articles) ''total_articles''
                  = JNum (of_nat (length articles))"
    by (simp_all add: getArticleStats_def Let_def)
  from False avg fields total Math_round_nearest [of ?m] show ?thesis
    by (auto simp add: Math_round_def)
qed

theorem stats_fields_and_average_witness:
  "demo_store \<noteq> []
   \<and> get_prop (getArticleStats demo_store) ''average_processing_time'' = JNum 1501
   \<and> get_prop (getArticleStats []) ''average_processing_time'' = JNum 0"
proof -
  have ne: "demo_store \<noteq> []" by (simp add: demo_store_def)
  have m: "\<lfloor>mean (map (processing_time_ms \<circ> snd) demo_store) + 1 / 2\<rfloor> = 1501"
    by (simp add: mean_def demo_store_def demo_article_def)
  from stats_fields_and_average [of demo_store] ne m
  have 1: "get_prop (getArticleStats demo_store) ''average_processing_time'' = JNum 1501"
    by auto
  from stats_fields_and_average [of "[]"]
  have 2: "get_prop (getArticleStats []) ''average_processing_time'' = JNum 0"
    by auto
  from ne 1 2 show ?thesis by blast
qed

end
